theory Spec2Isabelle
  imports Main "HOL-Library.Word"
begin

section \<open>The query gateway \<open>Get\<close> of the v4 client\<close>

text \<open>
  The class \<open>Get\<close> holds two readonly references, a Tendermint client and a Stargate
  query client, and offers one asynchronous method per on-chain query. Every method
  but \<open>latestBlock\<close> and \<open>latestBlockHeight\<close> encodes a request message, hands
  the bytes to \<open>sendQuery\<close> together with a literal path, and decodes the returned
  bytes. The embedding below follows the class method by method. (On loading, the
  module also hands the \<open>Long\<close> class to the protobuf library; that is done once,
  outside every method, and belongs to the codecs.)
\<close>

subsection \<open>Values that cross the gateway\<close>

text \<open>A \<open>Uint8Array\<close> is a list of bytes.\<close>

type_synonym bytes = "8 word list"

text \<open>
  The typed values the methods hand out. Only the fields the gateway reads or that a
  request carries are listed; a record keeps whatever else the library types hold in
  its extension slot.
\<close>

datatype Any = Any (typeUrl: string) (anyValue: bytes)

record Coin =
  denom :: string
  amount :: string

record UserStats =
  takerNotional :: "64 word"
  makerNotional :: "64 word"

text \<open>An account: address, public key (if any), account number and sequence.\<close>

datatype Account = Account string "bytes option" nat nat

record BlockHeader =
  height :: int

record Block =
  header :: BlockHeader

record PageRequest =
  key :: bytes
  offset :: "64 word"
  limit :: "64 word"
  countTotal :: bool
  reverse :: bool

text \<open>
  The request messages, one constructor per message type: the constructor says which
  type's \<open>encode\<close> is applied, its arguments are the fields of the object literal (for
  a paginated type the optional \<open>pagination\<close> field comes last, \<open>None\<close> when the
  literal leaves it out). An identifier (subaccount number, pair, market or perpetual
  id) is a JavaScript \<open>number\<close>; the model takes the integers, of any sign and size
  (fractions, infinities and NaN are outside it).
\<close>

datatype request =
    QueryPerpetualFeeParamsRequest
  | QueryUserFeeTierRequest string
  | QueryUserStatsRequest string
  | QueryAllBalancesRequest string "PageRequest option"
  | QueryBalanceRequest string string
  | QueryAllSubaccountRequest "PageRequest option"
  | QueryGetSubaccountRequest string int
  | QueryParamsRequest
  | QueryAllClobPairRequest "PageRequest option"
  | QueryGetClobPairRequest int
  | QueryAllMarketPricesRequest "PageRequest option"
  | QueryMarketPriceRequest int
  | QueryAllPerpetualsRequest "PageRequest option"
  | QueryPerpetualRequest int
  | QueryAccountRequest string
  | QueryEquityTierLimitConfigurationRequest
  | QueryDelegatorDelegationsRequest string "PageRequest option"
  | QueryDelegatorUnbondingDelegationsRequest string "PageRequest option"
  | QueryDelayedCompleteBridgeMessagesRequest string
  | QueryValidatorsRequest string "PageRequest option"

text \<open>The four response messages of which a method reads a field.\<close>

record QueryUserStatsResponse =
  stats :: "UserStats option"

record QueryAllBalancesResponse =
  balances :: "Coin list"

record QueryBalanceResponse =
  balance :: "Coin option"

record QueryAccountResponse =
  account :: "Any option"

subsection \<open>What the module imports\<close>

text \<open>
  The constant \<open>PAGE_REQUEST\<close>, the function \<open>accountFromAny\<close> and the generated
  codecs are imported by the module; they are parameters here. An imported function
  that may throw returns a sum, \<open>Inl\<close> carrying what it threw (\<open>'x\<close>). The fifteen
  responses that a method returns whole share the type \<open>'m\<close> of decoded messages.
\<close>

record ('x, 'm) modules =
  PAGE_REQUEST :: PageRequest
  accountFromAny :: "Any \<Rightarrow> 'x + Account"
  encode :: "request \<Rightarrow> bytes"
  decode_QueryPerpetualFeeParamsResponse :: "bytes \<Rightarrow> 'x + 'm"
  decode_QueryUserFeeTierResponse :: "bytes \<Rightarrow> 'x + 'm"
  decode_QueryUserStatsResponse :: "bytes \<Rightarrow> 'x + QueryUserStatsResponse"
  decode_QueryAllBalancesResponse :: "bytes \<Rightarrow> 'x + QueryAllBalancesResponse"
  decode_QueryBalanceResponse :: "bytes \<Rightarrow> 'x + QueryBalanceResponse"
  decode_QuerySubaccountAllResponse :: "bytes \<Rightarrow> 'x + 'm"
  decode_QuerySubaccountResponse :: "bytes \<Rightarrow> 'x + 'm"
  decode_QueryParamsResponse :: "bytes \<Rightarrow> 'x + 'm"
  decode_QueryClobPairAllResponse :: "bytes \<Rightarrow> 'x + 'm"
  decode_QueryClobPairResponse :: "bytes \<Rightarrow> 'x + 'm"
  decode_QueryAllMarketPricesResponse :: "bytes \<Rightarrow> 'x + 'm"
  decode_QueryMarketPriceResponse :: "bytes \<Rightarrow> 'x + 'm"
  decode_QueryAllPerpetualsResponse :: "bytes \<Rightarrow> 'x + 'm"
  decode_QueryPerpetualResponse :: "bytes \<Rightarrow> 'x + 'm"
  decode_QueryAccountResponse :: "bytes \<Rightarrow> 'x + QueryAccountResponse"
  decode_QueryEquityTierLimitConfigurationResponse :: "bytes \<Rightarrow> 'x + 'm"
  decode_QueryDelegatorDelegationsResponse :: "bytes \<Rightarrow> 'x + 'm"
  decode_QueryDelegatorUnbondingDelegationsResponse :: "bytes \<Rightarrow> 'x + 'm"
  decode_QueryDelayedCompleteBridgeMessagesResponse :: "bytes \<Rightarrow> 'x + 'm"
  decode_QueryValidatorsResponse :: "bytes \<Rightarrow> 'x + 'm"

subsection \<open>The two clients, the object and the state\<close>

text \<open>
  Each client offers the one operation the gateway calls. The node, the network and
  whatever the clients keep are the world \<open>'w\<close>: an operation reads it, may change it,
  and either returns or throws.
\<close>

record ('w, 'x) TendermintClient =
  getBlock :: "'w \<Rightarrow> ('x + Block) \<times> 'w"

record ('w, 'x) StargateQueryClient =
  queryUnverified :: "string \<Rightarrow> bytes \<Rightarrow> 'w \<Rightarrow> ('x + bytes) \<times> 'w"

record ('w, 'x) Get =
  tendermintClient :: "('w, 'x) TendermintClient"
  stargateQueryClient :: "('w, 'x) StargateQueryClient"

text \<open>
  The state a method runs in: the object, the world, and a log of the calls made on
  the two clients, in order.
\<close>

datatype call = GetBlock | QueryUnverified string bytes

record ('w, 'x) state =
  this :: "('w, 'x) Get"
  world :: 'w
  calls :: "call list"

definition Get_constructor ::
  "('w, 'x) TendermintClient \<Rightarrow> ('w, 'x) StargateQueryClient \<Rightarrow> ('w, 'x) Get" where
  "Get_constructor tendermintClient' stargateQueryClient' =
     \<lparr>tendermintClient = tendermintClient', stargateQueryClient = stargateQueryClient'\<rparr>"

subsection \<open>Promises\<close>

text \<open>
  An asynchronous method is a function of the state that yields the settled promise
  and the state after it: \<open>Inr\<close> the value it resolved to, \<open>Inl\<close> the error it was
  rejected with. The gateway has one error class of its own; every other rejection
  carries what a client or an imported function threw.
\<close>

datatype 'x error = UnexpectedClientError | Thrown 'x

type_synonym ('a, 'w, 'x) promise = "('w, 'x) state \<Rightarrow> ('x error + 'a) \<times> ('w, 'x) state"

definition settle :: "'x + 'a \<Rightarrow> 'x error + 'a" where
  "settle r = (case r of Inl x \<Rightarrow> Inl (Thrown x) | Inr a \<Rightarrow> Inr a)"

definition resolve :: "'a \<Rightarrow> ('a, 'w, 'x) promise" where
  "resolve a s = (Inr a, s)"

definition throw :: "'x error \<Rightarrow> ('a, 'w, 'x) promise" where
  "throw e s = (Inl e, s)"

text \<open>A call of an imported function that returns or throws at once.\<close>

definition attempt :: "'x + 'a \<Rightarrow> ('a, 'w, 'x) promise" where
  "attempt r s = (settle r, s)"

text \<open>\<open>await p\<close> followed by the rest of the method body.\<close>

definition await :: "('a, 'w, 'x) promise \<Rightarrow> ('a \<Rightarrow> ('b, 'w, 'x) promise) \<Rightarrow> ('b, 'w, 'x) promise" where
  "await p k s = (case p s of (Inl e, s') \<Rightarrow> (Inl e, s') | (Inr a, s') \<Rightarrow> k a s')"

subsection \<open>The methods\<close>

text \<open>
  \<open>sendQuery\<close> is the private method every query goes through; \<open>latestBlock\<close>
  asks the Tendermint client instead. Both leave the object as it is and append the
  call to the log.
\<close>

definition sendQuery :: "string \<Rightarrow> bytes \<Rightarrow> (bytes, 'w, 'x) promise" where
  "sendQuery requestUrl requestData s =
     (case queryUnverified (stargateQueryClient (this s)) requestUrl requestData (world s) of
        (r, w') \<Rightarrow>
          (settle r, s\<lparr>world := w', calls := calls s @ [QueryUnverified requestUrl requestData]\<rparr>))"

definition latestBlock :: "(Block, 'w, 'x) promise" where
  "latestBlock s =
     (case getBlock (tendermintClient (this s)) (world s) of
        (r, w') \<Rightarrow> (settle r, s\<lparr>world := w', calls := calls s @ [GetBlock]\<rparr>))"

definition latestBlockHeight :: "(int, 'w, 'x) promise" where
  "latestBlockHeight = await latestBlock (\<lambda>block. resolve (height (header block)))"

definition getFeeTiers :: "('x, 'm) modules \<Rightarrow> ('m, 'w, 'x) promise" where
  "getFeeTiers M =
     (let requestData = encode M (QueryPerpetualFeeParamsRequest)
      in await (sendQuery ''/dydxprotocol.feetiers.Query/PerpetualFeeParams'' requestData)
           (\<lambda>data. attempt (decode_QueryPerpetualFeeParamsResponse M data)))"

definition getUserFeeTier :: "('x, 'm) modules \<Rightarrow> string \<Rightarrow> ('m, 'w, 'x) promise" where
  "getUserFeeTier M address =
     (let requestData = encode M (QueryUserFeeTierRequest address)
      in await (sendQuery ''/dydxprotocol.feetiers.Query/UserFeeTier'' requestData)
           (\<lambda>data. attempt (decode_QueryUserFeeTierResponse M data)))"

definition getUserStats :: "('x, 'm) modules \<Rightarrow> string \<Rightarrow> (UserStats option, 'w, 'x) promise" where
  "getUserStats M address =
     (let requestData = encode M (QueryUserStatsRequest address)
      in await (sendQuery ''/dydxprotocol.stats.Query/UserStats'' requestData)
           (\<lambda>data. await (attempt (decode_QueryUserStatsResponse M data))
              (\<lambda>response. resolve (stats response))))"

definition getAccountBalances :: "('x, 'm) modules \<Rightarrow> string \<Rightarrow> (Coin list, 'w, 'x) promise" where
  "getAccountBalances M address =
     (let requestData = encode M (QueryAllBalancesRequest address None)
      in await (sendQuery ''/cosmos.bank.v1beta1.Query/AllBalances'' requestData)
           (\<lambda>data. await (attempt (decode_QueryAllBalancesResponse M data))
              (\<lambda>response. resolve (balances response))))"

definition getAccountBalance ::
  "('x, 'm) modules \<Rightarrow> string \<Rightarrow> string \<Rightarrow> (Coin option, 'w, 'x) promise" where
  "getAccountBalance M address denom' =
     (let requestData = encode M (QueryBalanceRequest address denom')
      in await (sendQuery ''/cosmos.bank.v1beta1.Query/Balance'' requestData)
           (\<lambda>data. await (attempt (decode_QueryBalanceResponse M data))
              (\<lambda>response. let coin = balance response in resolve coin)))"

definition getSubaccounts :: "('x, 'm) modules \<Rightarrow> ('m, 'w, 'x) promise" where
  "getSubaccounts M =
     (let requestData = encode M (QueryAllSubaccountRequest None)
      in await (sendQuery ''/dydxprotocol.subaccounts.Query/SubaccountAll'' requestData)
           (\<lambda>data. attempt (decode_QuerySubaccountAllResponse M data)))"

definition getSubaccount :: "('x, 'm) modules \<Rightarrow> string \<Rightarrow> int \<Rightarrow> ('m, 'w, 'x) promise" where
  "getSubaccount M address accountNumber =
     (let requestData = encode M (QueryGetSubaccountRequest address accountNumber)
      in await (sendQuery ''/dydxprotocol.subaccounts.Query/Subaccount'' requestData)
           (\<lambda>data. attempt (decode_QuerySubaccountResponse M data)))"

definition getRewardsParams :: "('x, 'm) modules \<Rightarrow> ('m, 'w, 'x) promise" where
  "getRewardsParams M =
     (let requestData = encode M (QueryParamsRequest)
      in await (sendQuery ''/dydxprotocol.rewards.Query/Params'' requestData)
           (\<lambda>data. attempt (decode_QueryParamsResponse M data)))"

definition getAllClobPairs :: "('x, 'm) modules \<Rightarrow> ('m, 'w, 'x) promise" where
  "getAllClobPairs M =
     (let requestData = encode M (QueryAllClobPairRequest (Some (PAGE_REQUEST M)))
      in await (sendQuery ''/dydxprotocol.clob.Query/ClobPairAll'' requestData)
           (\<lambda>data. attempt (decode_QueryClobPairAllResponse M data)))"

definition getClobPair :: "('x, 'm) modules \<Rightarrow> int \<Rightarrow> ('m, 'w, 'x) promise" where
  "getClobPair M pairId =
     (let requestData = encode M (QueryGetClobPairRequest pairId)
      in await (sendQuery ''/dydxprotocol.clob.Query/ClobPair'' requestData)
           (\<lambda>data. attempt (decode_QueryClobPairResponse M data)))"

definition getAllPrices :: "('x, 'm) modules \<Rightarrow> ('m, 'w, 'x) promise" where
  "getAllPrices M =
     (let requestData = encode M (QueryAllMarketPricesRequest (Some (PAGE_REQUEST M)))
      in await (sendQuery ''/dydxprotocol.prices.Query/AllMarketPrices'' requestData)
           (\<lambda>data. attempt (decode_QueryAllMarketPricesResponse M data)))"

definition getPrice :: "('x, 'm) modules \<Rightarrow> int \<Rightarrow> ('m, 'w, 'x) promise" where
  "getPrice M marketId =
     (let requestData = encode M (QueryMarketPriceRequest marketId)
      in await (sendQuery ''/dydxprotocol.prices.Query/MarketPrice'' requestData)
           (\<lambda>data. attempt (decode_QueryMarketPriceResponse M data)))"

definition getAllPerpetuals :: "('x, 'm) modules \<Rightarrow> ('m, 'w, 'x) promise" where
  "getAllPerpetuals M =
     (let requestData = encode M (QueryAllPerpetualsRequest (Some (PAGE_REQUEST M)))
      in await (sendQuery ''/dydxprotocol.perpetuals.Query/AllPerpetuals'' requestData)
           (\<lambda>data. attempt (decode_QueryAllPerpetualsResponse M data)))"

definition getPerpetual :: "('x, 'm) modules \<Rightarrow> int \<Rightarrow> ('m, 'w, 'x) promise" where
  "getPerpetual M perpetualId =
     (let requestData = encode M (QueryPerpetualRequest perpetualId)
      in await (sendQuery ''/dydxprotocol.perpetuals.Query/Perpetual'' requestData)
           (\<lambda>data. attempt (decode_QueryPerpetualResponse M data)))"

text \<open>
  \<open>getAccount\<close> is the one method that inspects what it decoded: an undefined
  \<open>account\<close> field throws the gateway's own error, a defined one goes to
  \<open>accountFromAny\<close>.
\<close>

definition getAccount :: "('x, 'm) modules \<Rightarrow> string \<Rightarrow> (Account, 'w, 'x) promise" where
  "getAccount M address =
     (let requestData = encode M (QueryAccountRequest address)
      in await (sendQuery ''/cosmos.auth.v1beta1.Query/Account'' requestData)
           (\<lambda>data. await (attempt (decode_QueryAccountResponse M data))
              (\<lambda>response. let rawAccount = account response
                 in (case rawAccount of
                       None \<Rightarrow> throw UnexpectedClientError
                     | Some rawAccount' \<Rightarrow> attempt (accountFromAny M rawAccount')))))"

definition getEquityTierLimitConfiguration :: "('x, 'm) modules \<Rightarrow> ('m, 'w, 'x) promise" where
  "getEquityTierLimitConfiguration M =
     (let requestData = encode M (QueryEquityTierLimitConfigurationRequest)
      in await (sendQuery ''/dydxprotocol.clob.Query/EquityTierLimitConfiguration'' requestData)
           (\<lambda>data. attempt (decode_QueryEquityTierLimitConfigurationResponse M data)))"

definition getDelegatorDelegations :: "('x, 'm) modules \<Rightarrow> string \<Rightarrow> ('m, 'w, 'x) promise" where
  "getDelegatorDelegations M delegatorAddr =
     (let requestData = encode M (QueryDelegatorDelegationsRequest delegatorAddr (Some (PAGE_REQUEST M)))
      in await (sendQuery ''/cosmos.staking.v1beta1.Query/DelegatorDelegations'' requestData)
           (\<lambda>data. attempt (decode_QueryDelegatorDelegationsResponse M data)))"

definition getDelegatorUnbondingDelegations :: "('x, 'm) modules \<Rightarrow> string \<Rightarrow> ('m, 'w, 'x) promise" where
  "getDelegatorUnbondingDelegations M delegatorAddr =
     (let requestData = encode M (QueryDelegatorUnbondingDelegationsRequest delegatorAddr (Some (PAGE_REQUEST M)))
      in await (sendQuery ''/cosmos.staking.v1beta1.Query/DelegatorUnbondingDelegations'' requestData)
           (\<lambda>data. attempt (decode_QueryDelegatorUnbondingDelegationsResponse M data)))"

text \<open>
  The two methods with a default parameter take an optional argument: \<open>None\<close> is the
  call that leaves it out, and the empty string stands in.
\<close>

definition getDelayedCompleteBridgeMessages ::
  "('x, 'm) modules \<Rightarrow> string option \<Rightarrow> ('m, 'w, 'x) promise" where
  "getDelayedCompleteBridgeMessages M address_arg =
     (let address' = (case address_arg of None \<Rightarrow> '''' | Some a \<Rightarrow> a);
          requestData = encode M (QueryDelayedCompleteBridgeMessagesRequest address')
      in await (sendQuery ''/dydxprotocol.bridge.Query/DelayedCompleteBridgeMessages'' requestData)
           (\<lambda>data. attempt (decode_QueryDelayedCompleteBridgeMessagesResponse M data)))"

definition getAllValidators :: "('x, 'm) modules \<Rightarrow> string option \<Rightarrow> ('m, 'w, 'x) promise" where
  "getAllValidators M status_arg =
     (let status = (case status_arg of None \<Rightarrow> '''' | Some v \<Rightarrow> v);
          requestData = encode M (QueryValidatorsRequest status (Some (PAGE_REQUEST M)))
      in await (sendQuery ''/cosmos.staking.v1beta1.Query/Validators'' requestData)
           (\<lambda>data. attempt (decode_QueryValidatorsResponse M data)))"

subsection \<open>Calling a method\<close>

text \<open>
  To speak of every method at once: a call of a query method with its arguments, a
  call of any method, and what a call resolves to, whichever method it was.
\<close>

datatype query =
    GetFeeTiers
  | GetUserFeeTier string
  | GetUserStats string
  | GetAccountBalances string
  | GetAccountBalance string string
  | GetSubaccounts
  | GetSubaccount string int
  | GetRewardsParams
  | GetAllClobPairs
  | GetClobPair int
  | GetAllPrices
  | GetPrice int
  | GetAllPerpetuals
  | GetPerpetual int
  | GetAccount string
  | GetEquityTierLimitConfiguration
  | GetDelegatorDelegations string
  | GetDelegatorUnbondingDelegations string
  | GetDelayedCompleteBridgeMessages "string option"
  | GetAllValidators "string option"

datatype invocation = LatestBlock | LatestBlockHeight | Query query

datatype 'm reply =
    BlockReply Block
  | HeightReply int
  | MessageReply 'm
  | StatsReply "UserStats option"
  | BalancesReply "Coin list"
  | BalanceReply "Coin option"
  | AccountReply Account

definition returning :: "('a \<Rightarrow> 'b) \<Rightarrow> ('a, 'w, 'x) promise \<Rightarrow> ('b, 'w, 'x) promise" where
  "returning f p = await p (\<lambda>a. resolve (f a))"

fun invokeQuery :: "('x, 'm) modules \<Rightarrow> query \<Rightarrow> ('m reply, 'w, 'x) promise" where
  "invokeQuery M GetFeeTiers = returning MessageReply (getFeeTiers M)"
| "invokeQuery M (GetUserFeeTier a) = returning MessageReply (getUserFeeTier M a)"
| "invokeQuery M (GetUserStats a) = returning StatsReply (getUserStats M a)"
| "invokeQuery M (GetAccountBalances a) = returning BalancesReply (getAccountBalances M a)"
| "invokeQuery M (GetAccountBalance a d) = returning BalanceReply (getAccountBalance M a d)"
| "invokeQuery M GetSubaccounts = returning MessageReply (getSubaccounts M)"
| "invokeQuery M (GetSubaccount a n) = returning MessageReply (getSubaccount M a n)"
| "invokeQuery M GetRewardsParams = returning MessageReply (getRewardsParams M)"
| "invokeQuery M GetAllClobPairs = returning MessageReply (getAllClobPairs M)"
| "invokeQuery M (GetClobPair n) = returning MessageReply (getClobPair M n)"
| "invokeQuery M GetAllPrices = returning MessageReply (getAllPrices M)"
| "invokeQuery M (GetPrice n) = returning MessageReply (getPrice M n)"
| "invokeQuery M GetAllPerpetuals = returning MessageReply (getAllPerpetuals M)"
| "invokeQuery M (GetPerpetual n) = returning MessageReply (getPerpetual M n)"
| "invokeQuery M (GetAccount a) = returning AccountReply (getAccount M a)"
| "invokeQuery M GetEquityTierLimitConfiguration =
     returning MessageReply (getEquityTierLimitConfiguration M)"
| "invokeQuery M (GetDelegatorDelegations a) = returning MessageReply (getDelegatorDelegations M a)"
| "invokeQuery M (GetDelegatorUnbondingDelegations a) =
     returning MessageReply (getDelegatorUnbondingDelegations M a)"
| "invokeQuery M (GetDelayedCompleteBridgeMessages a) =
     returning MessageReply (getDelayedCompleteBridgeMessages M a)"
| "invokeQuery M (GetAllValidators a) = returning MessageReply (getAllValidators M a)"

fun invoke :: "('x, 'm) modules \<Rightarrow> invocation \<Rightarrow> ('m reply, 'w, 'x) promise" where
  "invoke M LatestBlock = returning BlockReply latestBlock"
| "invoke M LatestBlockHeight = returning HeightReply latestBlockHeight"
| "invoke M (Query q) = invokeQuery M q"

subsection \<open>The uniform pipeline and the binding of paths to message types\<close>

text \<open>
  The message types by name, as the module refers to them: the module they are
  imported from, then the type.
\<close>

datatype requestType =
    FeeTierModule_QueryPerpetualFeeParamsRequest
  | FeeTierModule_QueryUserFeeTierRequest
  | StatsModule_QueryUserStatsRequest
  | BankModule_QueryAllBalancesRequest
  | BankModule_QueryBalanceRequest
  | SubaccountsModule_QueryAllSubaccountRequest
  | SubaccountsModule_QueryGetSubaccountRequest
  | RewardsModule_QueryParamsRequest
  | ClobModule_QueryAllClobPairRequest
  | ClobModule_QueryGetClobPairRequest
  | PricesModule_QueryAllMarketPricesRequest
  | PricesModule_QueryMarketPriceRequest
  | PerpetualsModule_QueryAllPerpetualsRequest
  | PerpetualsModule_QueryPerpetualRequest
  | AuthModule_QueryAccountRequest
  | ClobModule_QueryEquityTierLimitConfigurationRequest
  | StakingModule_QueryDelegatorDelegationsRequest
  | StakingModule_QueryDelegatorUnbondingDelegationsRequest
  | BridgeModule_QueryDelayedCompleteBridgeMessagesRequest
  | StakingModule_QueryValidatorsRequest

datatype responseType =
    FeeTierModule_QueryPerpetualFeeParamsResponse
  | FeeTierModule_QueryUserFeeTierResponse
  | StatsModule_QueryUserStatsResponse
  | BankModule_QueryAllBalancesResponse
  | BankModule_QueryBalanceResponse
  | SubaccountsModule_QuerySubaccountAllResponse
  | SubaccountsModule_QuerySubaccountResponse
  | RewardsModule_QueryParamsResponse
  | ClobModule_QueryClobPairAllResponse
  | ClobModule_QueryClobPairResponse
  | PricesModule_QueryAllMarketPricesResponse
  | PricesModule_QueryMarketPriceResponse
  | PerpetualsModule_QueryAllPerpetualsResponse
  | PerpetualsModule_QueryPerpetualResponse
  | AuthModule_QueryAccountResponse
  | ClobModule_QueryEquityTierLimitConfigurationResponse
  | StakingModule_QueryDelegatorDelegationsResponse
  | StakingModule_QueryDelegatorUnbondingDelegationsResponse
  | BridgeModule_QueryDelayedCompleteBridgeMessagesResponse
  | StakingModule_QueryValidatorsResponse

text \<open>The type of a request message is its constructor.\<close>

fun typeOf :: "request \<Rightarrow> requestType" where
  "typeOf QueryPerpetualFeeParamsRequest = FeeTierModule_QueryPerpetualFeeParamsRequest"
| "typeOf (QueryUserFeeTierRequest _) = FeeTierModule_QueryUserFeeTierRequest"
| "typeOf (QueryUserStatsRequest _) = StatsModule_QueryUserStatsRequest"
| "typeOf (QueryAllBalancesRequest _ _) = BankModule_QueryAllBalancesRequest"
| "typeOf (QueryBalanceRequest _ _) = BankModule_QueryBalanceRequest"
| "typeOf (QueryAllSubaccountRequest _) = SubaccountsModule_QueryAllSubaccountRequest"
| "typeOf (QueryGetSubaccountRequest _ _) = SubaccountsModule_QueryGetSubaccountRequest"
| "typeOf QueryParamsRequest = RewardsModule_QueryParamsRequest"
| "typeOf (QueryAllClobPairRequest _) = ClobModule_QueryAllClobPairRequest"
| "typeOf (QueryGetClobPairRequest _) = ClobModule_QueryGetClobPairRequest"
| "typeOf (QueryAllMarketPricesRequest _) = PricesModule_QueryAllMarketPricesRequest"
| "typeOf (QueryMarketPriceRequest _) = PricesModule_QueryMarketPriceRequest"
| "typeOf (QueryAllPerpetualsRequest _) = PerpetualsModule_QueryAllPerpetualsRequest"
| "typeOf (QueryPerpetualRequest _) = PerpetualsModule_QueryPerpetualRequest"
| "typeOf (QueryAccountRequest _) = AuthModule_QueryAccountRequest"
| "typeOf QueryEquityTierLimitConfigurationRequest =
     ClobModule_QueryEquityTierLimitConfigurationRequest"
| "typeOf (QueryDelegatorDelegationsRequest _ _) = StakingModule_QueryDelegatorDelegationsRequest"
| "typeOf (QueryDelegatorUnbondingDelegationsRequest _ _) =
     StakingModule_QueryDelegatorUnbondingDelegationsRequest"
| "typeOf (QueryDelayedCompleteBridgeMessagesRequest _) =
     BridgeModule_QueryDelayedCompleteBridgeMessagesRequest"
| "typeOf (QueryValidatorsRequest _ _) = StakingModule_QueryValidatorsRequest"

text \<open>A decoded response, whichever type it has, and the decoder of each type.\<close>

datatype 'm response =
    UserStatsResponse QueryUserStatsResponse
  | AllBalancesResponse QueryAllBalancesResponse
  | BalanceResponse QueryBalanceResponse
  | AccountResponse QueryAccountResponse
  | OtherResponse 'm

fun decodeAs :: "('x, 'm) modules \<Rightarrow> responseType \<Rightarrow> bytes \<Rightarrow> 'x + 'm response" where
  "decodeAs M FeeTierModule_QueryPerpetualFeeParamsResponse data =
     map_sum id OtherResponse (decode_QueryPerpetualFeeParamsResponse M data)"
| "decodeAs M FeeTierModule_QueryUserFeeTierResponse data =
     map_sum id OtherResponse (decode_QueryUserFeeTierResponse M data)"
| "decodeAs M StatsModule_QueryUserStatsResponse data =
     map_sum id UserStatsResponse (decode_QueryUserStatsResponse M data)"
| "decodeAs M BankModule_QueryAllBalancesResponse data =
     map_sum id AllBalancesResponse (decode_QueryAllBalancesResponse M data)"
| "decodeAs M BankModule_QueryBalanceResponse data =
     map_sum id BalanceResponse (decode_QueryBalanceResponse M data)"
| "decodeAs M SubaccountsModule_QuerySubaccountAllResponse data =
     map_sum id OtherResponse (decode_QuerySubaccountAllResponse M data)"
| "decodeAs M SubaccountsModule_QuerySubaccountResponse data =
     map_sum id OtherResponse (decode_QuerySubaccountResponse M data)"
| "decodeAs M RewardsModule_QueryParamsResponse data =
     map_sum id OtherResponse (decode_QueryParamsResponse M data)"
| "decodeAs M ClobModule_QueryClobPairAllResponse data =
     map_sum id OtherResponse (decode_QueryClobPairAllResponse M data)"
| "decodeAs M ClobModule_QueryClobPairResponse data =
     map_sum id OtherResponse (decode_QueryClobPairResponse M data)"
| "decodeAs M PricesModule_QueryAllMarketPricesResponse data =
     map_sum id OtherResponse (decode_QueryAllMarketPricesResponse M data)"
| "decodeAs M PricesModule_QueryMarketPriceResponse data =
     map_sum id OtherResponse (decode_QueryMarketPriceResponse M data)"
| "decodeAs M PerpetualsModule_QueryAllPerpetualsResponse data =
     map_sum id OtherResponse (decode_QueryAllPerpetualsResponse M data)"
| "decodeAs M PerpetualsModule_QueryPerpetualResponse data =
     map_sum id OtherResponse (decode_QueryPerpetualResponse M data)"
| "decodeAs M AuthModule_QueryAccountResponse data =
     map_sum id AccountResponse (decode_QueryAccountResponse M data)"
| "decodeAs M ClobModule_QueryEquityTierLimitConfigurationResponse data =
     map_sum id OtherResponse (decode_QueryEquityTierLimitConfigurationResponse M data)"
| "decodeAs M StakingModule_QueryDelegatorDelegationsResponse data =
     map_sum id OtherResponse (decode_QueryDelegatorDelegationsResponse M data)"
| "decodeAs M StakingModule_QueryDelegatorUnbondingDelegationsResponse data =
     map_sum id OtherResponse (decode_QueryDelegatorUnbondingDelegationsResponse M data)"
| "decodeAs M BridgeModule_QueryDelayedCompleteBridgeMessagesResponse data =
     map_sum id OtherResponse (decode_QueryDelayedCompleteBridgeMessagesResponse M data)"
| "decodeAs M StakingModule_QueryValidatorsResponse data =
     map_sum id OtherResponse (decode_QueryValidatorsResponse M data)"

text \<open>
  The algorithm the specification gives for every query method, in its steps:
  serialise the request, invoke the transport with path and payload, deserialise the
  returned bytes with the response type, and return the typed result, raising the
  unexpected-response condition only where the account field is absent.
\<close>

fun finish :: "('x, 'm) modules \<Rightarrow> 'm response \<Rightarrow> ('m reply, 'w, 'x) promise" where
  "finish M (UserStatsResponse r) = resolve (StatsReply (stats r))"
| "finish M (AllBalancesResponse r) = resolve (BalancesReply (balances r))"
| "finish M (BalanceResponse r) = resolve (BalanceReply (balance r))"
| "finish M (AccountResponse r) =
     (case account r of
        None \<Rightarrow> throw UnexpectedClientError
      | Some a \<Rightarrow> returning AccountReply (attempt (accountFromAny M a)))"
| "finish M (OtherResponse m) = resolve (MessageReply m)"

text \<open>What a decoded response makes the call resolve to or be rejected with.\<close>

fun outcome :: "('x, 'm) modules \<Rightarrow> 'm response \<Rightarrow> 'x error + 'm reply" where
  "outcome M (UserStatsResponse r) = Inr (StatsReply (stats r))"
| "outcome M (AllBalancesResponse r) = Inr (BalancesReply (balances r))"
| "outcome M (BalanceResponse r) = Inr (BalanceReply (balance r))"
| "outcome M (AccountResponse r) =
     (case account r of
        None \<Rightarrow> Inl UnexpectedClientError
      | Some a \<Rightarrow>
          (case accountFromAny M a of
             Inl x \<Rightarrow> Inl (Thrown x)
           | Inr acc \<Rightarrow> Inr (AccountReply acc)))"
| "outcome M (OtherResponse m) = Inr (MessageReply m)"

definition pipeline ::
  "('x, 'm) modules \<Rightarrow> string \<Rightarrow> request \<Rightarrow> responseType \<Rightarrow> ('m reply, 'w, 'x) promise" where
  "pipeline M path message T =
     await (sendQuery path (encode M message))
       (\<lambda>data. await (attempt (decodeAs M T data)) (finish M))"

text \<open>
  The binding: for each query method its path, the request it constructs from its
  arguments, and the names of its request and response types.
\<close>

fun wirePath :: "query \<Rightarrow> string" where
  "wirePath GetFeeTiers = ''/dydxprotocol.feetiers.Query/PerpetualFeeParams''"
| "wirePath (GetUserFeeTier _) = ''/dydxprotocol.feetiers.Query/UserFeeTier''"
| "wirePath (GetUserStats _) = ''/dydxprotocol.stats.Query/UserStats''"
| "wirePath (GetAccountBalances _) = ''/cosmos.bank.v1beta1.Query/AllBalances''"
| "wirePath (GetAccountBalance _ _) = ''/cosmos.bank.v1beta1.Query/Balance''"
| "wirePath GetSubaccounts = ''/dydxprotocol.subaccounts.Query/SubaccountAll''"
| "wirePath (GetSubaccount _ _) = ''/dydxprotocol.subaccounts.Query/Subaccount''"
| "wirePath GetRewardsParams = ''/dydxprotocol.rewards.Query/Params''"
| "wirePath GetAllClobPairs = ''/dydxprotocol.clob.Query/ClobPairAll''"
| "wirePath (GetClobPair _) = ''/dydxprotocol.clob.Query/ClobPair''"
| "wirePath GetAllPrices = ''/dydxprotocol.prices.Query/AllMarketPrices''"
| "wirePath (GetPrice _) = ''/dydxprotocol.prices.Query/MarketPrice''"
| "wirePath GetAllPerpetuals = ''/dydxprotocol.perpetuals.Query/AllPerpetuals''"
| "wirePath (GetPerpetual _) = ''/dydxprotocol.perpetuals.Query/Perpetual''"
| "wirePath (GetAccount _) = ''/cosmos.auth.v1beta1.Query/Account''"
| "wirePath GetEquityTierLimitConfiguration =
     ''/dydxprotocol.clob.Query/EquityTierLimitConfiguration''"
| "wirePath (GetDelegatorDelegations _) = ''/cosmos.staking.v1beta1.Query/DelegatorDelegations''"
| "wirePath (GetDelegatorUnbondingDelegations _) =
     ''/cosmos.staking.v1beta1.Query/DelegatorUnbondingDelegations''"
| "wirePath (GetDelayedCompleteBridgeMessages _) =
     ''/dydxprotocol.bridge.Query/DelayedCompleteBridgeMessages''"
| "wirePath (GetAllValidators _) = ''/cosmos.staking.v1beta1.Query/Validators''"

fun requestOf :: "('x, 'm) modules \<Rightarrow> query \<Rightarrow> request" where
  "requestOf M GetFeeTiers = QueryPerpetualFeeParamsRequest"
| "requestOf M (GetUserFeeTier a) = QueryUserFeeTierRequest a"
| "requestOf M (GetUserStats a) = QueryUserStatsRequest a"
| "requestOf M (GetAccountBalances a) = QueryAllBalancesRequest a None"
| "requestOf M (GetAccountBalance a d) = QueryBalanceRequest a d"
| "requestOf M GetSubaccounts = QueryAllSubaccountRequest None"
| "requestOf M (GetSubaccount a n) = QueryGetSubaccountRequest a n"
| "requestOf M GetRewardsParams = QueryParamsRequest"
| "requestOf M GetAllClobPairs = QueryAllClobPairRequest (Some (PAGE_REQUEST M))"
| "requestOf M (GetClobPair n) = QueryGetClobPairRequest n"
| "requestOf M GetAllPrices = QueryAllMarketPricesRequest (Some (PAGE_REQUEST M))"
| "requestOf M (GetPrice n) = QueryMarketPriceRequest n"
| "requestOf M GetAllPerpetuals = QueryAllPerpetualsRequest (Some (PAGE_REQUEST M))"
| "requestOf M (GetPerpetual n) = QueryPerpetualRequest n"
| "requestOf M (GetAccount a) = QueryAccountRequest a"
| "requestOf M GetEquityTierLimitConfiguration = QueryEquityTierLimitConfigurationRequest"
| "requestOf M (GetDelegatorDelegations a) =
     QueryDelegatorDelegationsRequest a (Some (PAGE_REQUEST M))"
| "requestOf M (GetDelegatorUnbondingDelegations a) =
     QueryDelegatorUnbondingDelegationsRequest a (Some (PAGE_REQUEST M))"
| "requestOf M (GetDelayedCompleteBridgeMessages a) =
     QueryDelayedCompleteBridgeMessagesRequest (case a of None \<Rightarrow> '''' | Some v \<Rightarrow> v)"
| "requestOf M (GetAllValidators a) =
     QueryValidatorsRequest (case a of None \<Rightarrow> '''' | Some v \<Rightarrow> v) (Some (PAGE_REQUEST M))"

fun requestTypeOf :: "query \<Rightarrow> requestType" where
  "requestTypeOf GetFeeTiers = FeeTierModule_QueryPerpetualFeeParamsRequest"
| "requestTypeOf (GetUserFeeTier _) = FeeTierModule_QueryUserFeeTierRequest"
| "requestTypeOf (GetUserStats _) = StatsModule_QueryUserStatsRequest"
| "requestTypeOf (GetAccountBalances _) = BankModule_QueryAllBalancesRequest"
| "requestTypeOf (GetAccountBalance _ _) = BankModule_QueryBalanceRequest"
| "requestTypeOf GetSubaccounts = SubaccountsModule_QueryAllSubaccountRequest"
| "requestTypeOf (GetSubaccount _ _) = SubaccountsModule_QueryGetSubaccountRequest"
| "requestTypeOf GetRewardsParams = RewardsModule_QueryParamsRequest"
| "requestTypeOf GetAllClobPairs = ClobModule_QueryAllClobPairRequest"
| "requestTypeOf (GetClobPair _) = ClobModule_QueryGetClobPairRequest"
| "requestTypeOf GetAllPrices = PricesModule_QueryAllMarketPricesRequest"
| "requestTypeOf (GetPrice _) = PricesModule_QueryMarketPriceRequest"
| "requestTypeOf GetAllPerpetuals = PerpetualsModule_QueryAllPerpetualsRequest"
| "requestTypeOf (GetPerpetual _) = PerpetualsModule_QueryPerpetualRequest"
| "requestTypeOf (GetAccount _) = AuthModule_QueryAccountRequest"
| "requestTypeOf GetEquityTierLimitConfiguration =
     ClobModule_QueryEquityTierLimitConfigurationRequest"
| "requestTypeOf (GetDelegatorDelegations _) = StakingModule_QueryDelegatorDelegationsRequest"
| "requestTypeOf (GetDelegatorUnbondingDelegations _) =
     StakingModule_QueryDelegatorUnbondingDelegationsRequest"
| "requestTypeOf (GetDelayedCompleteBridgeMessages _) =
     BridgeModule_QueryDelayedCompleteBridgeMessagesRequest"
| "requestTypeOf (GetAllValidators _) = StakingModule_QueryValidatorsRequest"

fun responseTypeOf :: "query \<Rightarrow> responseType" where
  "responseTypeOf GetFeeTiers = FeeTierModule_QueryPerpetualFeeParamsResponse"
| "responseTypeOf (GetUserFeeTier _) = FeeTierModule_QueryUserFeeTierResponse"
| "responseTypeOf (GetUserStats _) = StatsModule_QueryUserStatsResponse"
| "responseTypeOf (GetAccountBalances _) = BankModule_QueryAllBalancesResponse"
| "responseTypeOf (GetAccountBalance _ _) = BankModule_QueryBalanceResponse"
| "responseTypeOf GetSubaccounts = SubaccountsModule_QuerySubaccountAllResponse"
| "responseTypeOf (GetSubaccount _ _) = SubaccountsModule_QuerySubaccountResponse"
| "responseTypeOf GetRewardsParams = RewardsModule_QueryParamsResponse"
| "responseTypeOf GetAllClobPairs = ClobModule_QueryClobPairAllResponse"
| "responseTypeOf (GetClobPair _) = ClobModule_QueryClobPairResponse"
| "responseTypeOf GetAllPrices = PricesModule_QueryAllMarketPricesResponse"
| "responseTypeOf (GetPrice _) = PricesModule_QueryMarketPriceResponse"
| "responseTypeOf GetAllPerpetuals = PerpetualsModule_QueryAllPerpetualsResponse"
| "responseTypeOf (GetPerpetual _) = PerpetualsModule_QueryPerpetualResponse"
| "responseTypeOf (GetAccount _) = AuthModule_QueryAccountResponse"
| "responseTypeOf GetEquityTierLimitConfiguration =
     ClobModule_QueryEquityTierLimitConfigurationResponse"
| "responseTypeOf (GetDelegatorDelegations _) = StakingModule_QueryDelegatorDelegationsResponse"
| "responseTypeOf (GetDelegatorUnbondingDelegations _) =
     StakingModule_QueryDelegatorUnbondingDelegationsResponse"
| "responseTypeOf (GetDelayedCompleteBridgeMessages _) =
     BridgeModule_QueryDelayedCompleteBridgeMessagesResponse"
| "responseTypeOf (GetAllValidators _) = StakingModule_QueryValidatorsResponse"

text \<open>
  What the outside answers to a call in a given state: the block-tip operation for the
  two block methods, the query transport on the method's path and payload otherwise.
\<close>

fun transportReply ::
  "('x, 'm) modules \<Rightarrow> invocation \<Rightarrow> ('w, 'x) state \<Rightarrow> ('x + Block) + ('x + bytes)" where
  "transportReply M (Query q) s =
     Inr (fst (queryUnverified (stargateQueryClient (this s)) (wirePath q)
       (encode M (requestOf M q)) (world s)))"
| "transportReply M _ s = Inl (fst (getBlock (tendermintClient (this s)) (world s)))"

section \<open>A reference wire format\<close>

text \<open>
  Modelled from the spec: the codecs of the request messages. They are generated code
  that the module imports, outside the class; the specification says of them that a
  request is serialised as a protobuf message of the type bound to the path and that
  decoding what was encoded gives the request back. This section gives such a codec, in
  the protobuf wire format, to run the gateway against: a message is the sequence of
  its fields, each a tag (field number and wire type) followed by a varint or by a
  length and that many bytes; a field holding its default is left out, an optional
  message field is left out when undefined.
\<close>

subsection \<open>Varints and fields\<close>

fun varint :: "nat \<Rightarrow> bytes" where
  "varint n = (if n < 128 then [of_nat n] else of_nat (128 + n mod 128) # varint (n div 128))"

declare varint.simps [simp del]

fun readVarint :: "bytes \<Rightarrow> (nat \<times> bytes) option" where
  "readVarint [] = None"
| "readVarint (b # bs) =
     (if b < 128 then Some (unat b, bs)
      else (case readVarint bs of
              None \<Rightarrow> None
            | Some (v, rest) \<Rightarrow> Some (unat b - 128 + 128 * v, rest)))"

definition readLengthDelimited :: "bytes \<Rightarrow> (bytes \<times> bytes) option" where
  "readLengthDelimited bs =
     (case readVarint bs of
        None \<Rightarrow> None
      | Some (len, r) \<Rightarrow> if len \<le> length r then Some (take len r, drop len r) else None)"

text \<open>
  A field as written or read: its number and its value, a varint or a run of bytes.
  The tag in front of it is eight times the number plus the wire type (0 for a varint,
  2 for length-delimited bytes).
\<close>

datatype wire = Varint nat | LengthDelimited bytes

type_synonym field = "nat \<times> wire"

fun writeField :: "field \<Rightarrow> bytes" where
  "writeField (n, Varint v) = varint (8 * n) @ varint v"
| "writeField (n, LengthDelimited b) = varint (8 * n + 2) @ varint (length b) @ b"

definition writeFields :: "field list \<Rightarrow> bytes" where
  "writeFields fs = concat (map writeField fs)"

text \<open>
  A generated decoder reads the tag and switches on the field number alone: for a number
  the message type has, it reads what that field holds, whatever wire type the tag
  announces; any other field it skips by the wire type of the tag. Skipping knows
  varints, 64-bit and 32-bit fixed values and length-delimited bytes (groups are left
  out of this model and refused). Input that is cut short is refused.
\<close>

datatype kind = VarintKind | LengthDelimitedKind

type_synonym schema = "nat \<Rightarrow> kind option"

definition skipType :: "nat \<Rightarrow> bytes \<Rightarrow> bytes option" where
  "skipType wireType bs =
     (if wireType = 0 then map_option snd (readVarint bs)
      else if wireType = 1 then (if 8 \<le> length bs then Some (drop 8 bs) else None)
      else if wireType = 2 then map_option snd (readLengthDelimited bs)
      else if wireType = 5 then (if 4 \<le> length bs then Some (drop 4 bs) else None)
      else None)"

definition readField :: "schema \<Rightarrow> bytes \<Rightarrow> (field option \<times> bytes) option" where
  "readField known bs =
     (case readVarint bs of
        None \<Rightarrow> None
      | Some (tag, r) \<Rightarrow>
          (case known (tag div 8) of
             Some VarintKind \<Rightarrow>
               (case readVarint r of
                  None \<Rightarrow> None
                | Some (v, r') \<Rightarrow> Some (Some (tag div 8, Varint v), r'))
           | Some LengthDelimitedKind \<Rightarrow>
               (case readLengthDelimited r of
                  None \<Rightarrow> None
                | Some (b, r') \<Rightarrow> Some (Some (tag div 8, LengthDelimited b), r'))
           | None \<Rightarrow>
               (case skipType (tag mod 8) r of
                  None \<Rightarrow> None
                | Some r' \<Rightarrow> Some (None, r'))))"

lemma readVarint_shorter: "readVarint bs = Some (v, rest) \<Longrightarrow> length rest < length bs"
  by (induction bs arbitrary: v) (auto split: if_splits option.splits)

lemma readLengthDelimited_shorter:
  "readLengthDelimited bs = Some (b, rest) \<Longrightarrow> length rest < length bs"
  by (auto simp: readLengthDelimited_def split: option.splits if_splits dest!: readVarint_shorter)

lemma skipType_shorter: "skipType t bs = Some rest \<Longrightarrow> length rest \<le> length bs"
  by (auto simp: skipType_def split: if_splits
      dest!: readVarint_shorter readLengthDelimited_shorter)

lemma readField_shorter: "readField known bs = Some (f, rest) \<Longrightarrow> length rest < length bs"
  by (auto simp: readField_def split: option.splits kind.splits
      dest!: readVarint_shorter readLengthDelimited_shorter skipType_shorter)

text \<open>
  The decode loop reads fields until the input is used up; every round shortens it.
  It yields the fields the message type has, in the order read.
\<close>

function readFields :: "schema \<Rightarrow> bytes \<Rightarrow> field list option" where
  "readFields known bs =
     (if bs = [] then Some []
      else (case readField known bs of
              None \<Rightarrow> None
            | Some (f, rest) \<Rightarrow>
                (case readFields known rest of
                   None \<Rightarrow> None
                 | Some fs \<Rightarrow> Some (case f of None \<Rightarrow> fs | Some f' \<Rightarrow> f' # fs))))"
  by pat_completeness auto
termination
  by (relation "measure (\<lambda>(known, bs). length bs)") (auto dest: readField_shorter)

declare readFields.simps [simp del]

text \<open>
  A decoder starts from the base message of its type and lets every field read update
  it; \<open>None\<close> is the decoder throwing.
\<close>

fun foldFields :: "(field \<Rightarrow> 'a \<Rightarrow> 'a option) \<Rightarrow> field list \<Rightarrow> 'a \<Rightarrow> 'a option" where
  "foldFields assign [] message = Some message"
| "foldFields assign (f # fs) message =
     (case assign f message of None \<Rightarrow> None | Some message' \<Rightarrow> foldFields assign fs message')"

definition decodeMessage ::
  "schema \<Rightarrow> (field \<Rightarrow> 'a \<Rightarrow> 'a option) \<Rightarrow> 'a \<Rightarrow> bytes \<Rightarrow> 'a option" where
  "decodeMessage known assign base input =
     (case readFields known input of None \<Rightarrow> None | Some fs \<Rightarrow> foldFields assign fs base)"

text \<open>A field conforms to a message type that has its number, holding its kind of value.\<close>

fun kindOf :: "wire \<Rightarrow> kind" where
  "kindOf (Varint v) = VarintKind"
| "kindOf (LengthDelimited b) = LengthDelimitedKind"

definition conforms :: "schema \<Rightarrow> field \<Rightarrow> bool" where
  "conforms known f = (known (fst f) = Some (kindOf (snd f)))"

subsection \<open>Field values\<close>

text \<open>A string travels as its bytes.\<close>

definition toUtf8 :: "string \<Rightarrow> bytes" where
  "toUtf8 str = map (\<lambda>c. of_nat (of_char c)) str"

definition fromUtf8 :: "bytes \<Rightarrow> string" where
  "fromUtf8 bs = map (\<lambda>b. char_of (unat b)) bs"

definition bytesField :: "nat \<Rightarrow> bytes \<Rightarrow> field list" where
  "bytesField n b = (if b = [] then [] else [(n, LengthDelimited b)])"

definition stringField :: "nat \<Rightarrow> string \<Rightarrow> field list" where
  "stringField n str = (if str = [] then [] else [(n, LengthDelimited (toUtf8 str))])"

text \<open>A 64-bit unsigned value (a \<open>Long\<close>) is left out when zero.\<close>

definition uint64Field :: "nat \<Rightarrow> 64 word \<Rightarrow> field list" where
  "uint64Field n w = (if w = 0 then [] else [(n, Varint (unat w))])"

text \<open>
  A \<open>uint32\<close> field holds a JavaScript number. The encoder leaves the field out when
  the number itself is zero, and otherwise writes the number taken to 32 unsigned bits
  (modulo \<open>2 ^ 32\<close>), which may then be zero; the decoder reads 32 unsigned bits.
\<close>

definition uint32Field :: "nat \<Rightarrow> int \<Rightarrow> field list" where
  "uint32Field n v = (if v = 0 then [] else [(n, Varint (nat (v mod 2 ^ 32)))])"

definition readUint32 :: "nat \<Rightarrow> int" where
  "readUint32 v = int (v mod 2 ^ 32)"

definition boolField :: "nat \<Rightarrow> bool \<Rightarrow> field list" where
  "boolField n b = (if b then [(n, Varint 1)] else [])"

subsection \<open>The pagination descriptor\<close>

definition PageRequest_encode :: "PageRequest \<Rightarrow> bytes" where
  "PageRequest_encode message =
     writeFields (bytesField 1 (key message) @ uint64Field 2 (offset message)
       @ uint64Field 3 (limit message) @ boolField 4 (countTotal message)
       @ boolField 5 (reverse message))"

definition createBasePageRequest :: PageRequest where
  "createBasePageRequest = \<lparr>key = [], offset = 0, limit = 0, countTotal = False, reverse = False\<rparr>"

definition PageRequest_fields :: schema where
  "PageRequest_fields =
     map_of [(1, LengthDelimitedKind), (2, VarintKind), (3, VarintKind), (4, VarintKind),
       (5, VarintKind)]"

fun PageRequest_assign :: "field \<Rightarrow> PageRequest \<Rightarrow> PageRequest option" where
  "PageRequest_assign (n, LengthDelimited b) message =
     Some (if n = 1 then message\<lparr>key := b\<rparr> else message)"
| "PageRequest_assign (n, Varint v) message =
     Some (if n = 2 then message\<lparr>offset := of_nat v\<rparr>
           else if n = 3 then message\<lparr>limit := of_nat v\<rparr>
           else if n = 4 then message\<lparr>countTotal := (v \<noteq> 0)\<rparr>
           else if n = 5 then message\<lparr>reverse := (v \<noteq> 0)\<rparr>
           else message)"

definition PageRequest_decode :: "bytes \<Rightarrow> PageRequest option" where
  "PageRequest_decode = decodeMessage PageRequest_fields PageRequest_assign createBasePageRequest"

definition messageField :: "nat \<Rightarrow> PageRequest option \<Rightarrow> field list" where
  "messageField n pagination =
     (case pagination of
        None \<Rightarrow> []
      | Some message \<Rightarrow> [(n, LengthDelimited (PageRequest_encode message))])"

subsection \<open>The request messages\<close>

fun requestFields :: "request \<Rightarrow> field list" where
  "requestFields QueryPerpetualFeeParamsRequest = []"
| "requestFields (QueryUserFeeTierRequest user) = stringField 1 user"
| "requestFields (QueryUserStatsRequest user) = stringField 1 user"
| "requestFields (QueryAllBalancesRequest addr pagination) =
     stringField 1 addr @ messageField 2 pagination"
| "requestFields (QueryBalanceRequest addr dnm) = stringField 1 addr @ stringField 2 dnm"
| "requestFields (QueryAllSubaccountRequest pagination) = messageField 1 pagination"
| "requestFields (QueryGetSubaccountRequest owner number) =
     stringField 1 owner @ uint32Field 2 number"
| "requestFields QueryParamsRequest = []"
| "requestFields (QueryAllClobPairRequest pagination) = messageField 1 pagination"
| "requestFields (QueryGetClobPairRequest ident) = uint32Field 1 ident"
| "requestFields (QueryAllMarketPricesRequest pagination) = messageField 1 pagination"
| "requestFields (QueryMarketPriceRequest ident) = uint32Field 1 ident"
| "requestFields (QueryAllPerpetualsRequest pagination) = messageField 1 pagination"
| "requestFields (QueryPerpetualRequest ident) = uint32Field 1 ident"
| "requestFields (QueryAccountRequest addr) = stringField 1 addr"
| "requestFields QueryEquityTierLimitConfigurationRequest = []"
| "requestFields (QueryDelegatorDelegationsRequest delegatorAddr pagination) =
     stringField 1 delegatorAddr @ messageField 2 pagination"
| "requestFields (QueryDelegatorUnbondingDelegationsRequest delegatorAddr pagination) =
     stringField 1 delegatorAddr @ messageField 2 pagination"
| "requestFields (QueryDelayedCompleteBridgeMessagesRequest addr) = stringField 1 addr"
| "requestFields (QueryValidatorsRequest status pagination) =
     stringField 1 status @ messageField 2 pagination"

text \<open>
  Modelled from the spec: the encoders of the request message types (the generated
  \<open>encode\<close> functions the module imports are not part of the class), as the protobuf
  serialisation the specification names.
\<close>

definition wire_encode :: "request \<Rightarrow> bytes" where
  "wire_encode message = writeFields (requestFields message)"

text \<open>The message a decoder starts from: every field at its default.\<close>

fun createBase :: "requestType \<Rightarrow> request" where
  "createBase FeeTierModule_QueryPerpetualFeeParamsRequest = QueryPerpetualFeeParamsRequest"
| "createBase FeeTierModule_QueryUserFeeTierRequest = QueryUserFeeTierRequest ''''"
| "createBase StatsModule_QueryUserStatsRequest = QueryUserStatsRequest ''''"
| "createBase BankModule_QueryAllBalancesRequest = QueryAllBalancesRequest '''' None"
| "createBase BankModule_QueryBalanceRequest = QueryBalanceRequest '''' ''''"
| "createBase SubaccountsModule_QueryAllSubaccountRequest = QueryAllSubaccountRequest None"
| "createBase SubaccountsModule_QueryGetSubaccountRequest = QueryGetSubaccountRequest '''' 0"
| "createBase RewardsModule_QueryParamsRequest = QueryParamsRequest"
| "createBase ClobModule_QueryAllClobPairRequest = QueryAllClobPairRequest None"
| "createBase ClobModule_QueryGetClobPairRequest = QueryGetClobPairRequest 0"
| "createBase PricesModule_QueryAllMarketPricesRequest = QueryAllMarketPricesRequest None"
| "createBase PricesModule_QueryMarketPriceRequest = QueryMarketPriceRequest 0"
| "createBase PerpetualsModule_QueryAllPerpetualsRequest = QueryAllPerpetualsRequest None"
| "createBase PerpetualsModule_QueryPerpetualRequest = QueryPerpetualRequest 0"
| "createBase AuthModule_QueryAccountRequest = QueryAccountRequest ''''"
| "createBase ClobModule_QueryEquityTierLimitConfigurationRequest =
     QueryEquityTierLimitConfigurationRequest"
| "createBase StakingModule_QueryDelegatorDelegationsRequest =
     QueryDelegatorDelegationsRequest '''' None"
| "createBase StakingModule_QueryDelegatorUnbondingDelegationsRequest =
     QueryDelegatorUnbondingDelegationsRequest '''' None"
| "createBase BridgeModule_QueryDelayedCompleteBridgeMessagesRequest =
     QueryDelayedCompleteBridgeMessagesRequest ''''"
| "createBase StakingModule_QueryValidatorsRequest = QueryValidatorsRequest '''' None"

text \<open>The fields each request type has, and what each holds.\<close>

fun requestSchema :: "requestType \<Rightarrow> schema" where
  "requestSchema FeeTierModule_QueryPerpetualFeeParamsRequest = map_of []"
| "requestSchema FeeTierModule_QueryUserFeeTierRequest = map_of [(1, LengthDelimitedKind)]"
| "requestSchema StatsModule_QueryUserStatsRequest = map_of [(1, LengthDelimitedKind)]"
| "requestSchema BankModule_QueryAllBalancesRequest =
     map_of [(1, LengthDelimitedKind), (2, LengthDelimitedKind)]"
| "requestSchema BankModule_QueryBalanceRequest =
     map_of [(1, LengthDelimitedKind), (2, LengthDelimitedKind)]"
| "requestSchema SubaccountsModule_QueryAllSubaccountRequest = map_of [(1, LengthDelimitedKind)]"
| "requestSchema SubaccountsModule_QueryGetSubaccountRequest =
     map_of [(1, LengthDelimitedKind), (2, VarintKind)]"
| "requestSchema RewardsModule_QueryParamsRequest = map_of []"
| "requestSchema ClobModule_QueryAllClobPairRequest = map_of [(1, LengthDelimitedKind)]"
| "requestSchema ClobModule_QueryGetClobPairRequest = map_of [(1, VarintKind)]"
| "requestSchema PricesModule_QueryAllMarketPricesRequest = map_of [(1, LengthDelimitedKind)]"
| "requestSchema PricesModule_QueryMarketPriceRequest = map_of [(1, VarintKind)]"
| "requestSchema PerpetualsModule_QueryAllPerpetualsRequest = map_of [(1, LengthDelimitedKind)]"
| "requestSchema PerpetualsModule_QueryPerpetualRequest = map_of [(1, VarintKind)]"
| "requestSchema AuthModule_QueryAccountRequest = map_of [(1, LengthDelimitedKind)]"
| "requestSchema ClobModule_QueryEquityTierLimitConfigurationRequest = map_of []"
| "requestSchema StakingModule_QueryDelegatorDelegationsRequest =
     map_of [(1, LengthDelimitedKind), (2, LengthDelimitedKind)]"
| "requestSchema StakingModule_QueryDelegatorUnbondingDelegationsRequest =
     map_of [(1, LengthDelimitedKind), (2, LengthDelimitedKind)]"
| "requestSchema BridgeModule_QueryDelayedCompleteBridgeMessagesRequest =
     map_of [(1, LengthDelimitedKind)]"
| "requestSchema StakingModule_QueryValidatorsRequest =
     map_of [(1, LengthDelimitedKind), (2, LengthDelimitedKind)]"

text \<open>One round of a decode loop: the field read is stored in the message.\<close>

definition paged :: "(PageRequest option \<Rightarrow> request) \<Rightarrow> bytes \<Rightarrow> request option" where
  "paged mk b =
     (case PageRequest_decode b of None \<Rightarrow> None | Some message \<Rightarrow> Some (mk (Some message)))"

fun assignField :: "field \<Rightarrow> request \<Rightarrow> request option" where
  "assignField (n, LengthDelimited b) (QueryUserFeeTierRequest user) =
     Some (QueryUserFeeTierRequest (if n = 1 then fromUtf8 b else user))"
| "assignField (n, LengthDelimited b) (QueryUserStatsRequest user) =
     Some (QueryUserStatsRequest (if n = 1 then fromUtf8 b else user))"
| "assignField (n, LengthDelimited b) (QueryAllBalancesRequest addr pagination) =
     (if n = 1 then Some (QueryAllBalancesRequest (fromUtf8 b) pagination)
      else if n = 2 then paged (QueryAllBalancesRequest addr) b
      else Some (QueryAllBalancesRequest addr pagination))"
| "assignField (n, LengthDelimited b) (QueryBalanceRequest addr dnm) =
     Some (if n = 1 then QueryBalanceRequest (fromUtf8 b) dnm
           else if n = 2 then QueryBalanceRequest addr (fromUtf8 b)
           else QueryBalanceRequest addr dnm)"
| "assignField (n, LengthDelimited b) (QueryAllSubaccountRequest pagination) =
     (if n = 1 then paged QueryAllSubaccountRequest b
      else Some (QueryAllSubaccountRequest pagination))"
| "assignField (n, LengthDelimited b) (QueryGetSubaccountRequest owner number) =
     Some (QueryGetSubaccountRequest (if n = 1 then fromUtf8 b else owner) number)"
| "assignField (n, Varint v) (QueryGetSubaccountRequest owner number) =
     Some (QueryGetSubaccountRequest owner (if n = 2 then readUint32 v else number))"
| "assignField (n, LengthDelimited b) (QueryAllClobPairRequest pagination) =
     (if n = 1 then paged QueryAllClobPairRequest b else Some (QueryAllClobPairRequest pagination))"
| "assignField (n, Varint v) (QueryGetClobPairRequest ident) =
     Some (QueryGetClobPairRequest (if n = 1 then readUint32 v else ident))"
| "assignField (n, LengthDelimited b) (QueryAllMarketPricesRequest pagination) =
     (if n = 1 then paged QueryAllMarketPricesRequest b
      else Some (QueryAllMarketPricesRequest pagination))"
| "assignField (n, Varint v) (QueryMarketPriceRequest ident) =
     Some (QueryMarketPriceRequest (if n = 1 then readUint32 v else ident))"
| "assignField (n, LengthDelimited b) (QueryAllPerpetualsRequest pagination) =
     (if n = 1 then paged QueryAllPerpetualsRequest b
      else Some (QueryAllPerpetualsRequest pagination))"
| "assignField (n, Varint v) (QueryPerpetualRequest ident) =
     Some (QueryPerpetualRequest (if n = 1 then readUint32 v else ident))"
| "assignField (n, LengthDelimited b) (QueryAccountRequest addr) =
     Some (QueryAccountRequest (if n = 1 then fromUtf8 b else addr))"
| "assignField (n, LengthDelimited b) (QueryDelegatorDelegationsRequest delegatorAddr pagination) =
     (if n = 1 then Some (QueryDelegatorDelegationsRequest (fromUtf8 b) pagination)
      else if n = 2 then paged (QueryDelegatorDelegationsRequest delegatorAddr) b
      else Some (QueryDelegatorDelegationsRequest delegatorAddr pagination))"
| "assignField (n, LengthDelimited b)
       (QueryDelegatorUnbondingDelegationsRequest delegatorAddr pagination) =
     (if n = 1 then Some (QueryDelegatorUnbondingDelegationsRequest (fromUtf8 b) pagination)
      else if n = 2 then paged (QueryDelegatorUnbondingDelegationsRequest delegatorAddr) b
      else Some (QueryDelegatorUnbondingDelegationsRequest delegatorAddr pagination))"
| "assignField (n, LengthDelimited b) (QueryDelayedCompleteBridgeMessagesRequest addr) =
     Some (QueryDelayedCompleteBridgeMessagesRequest (if n = 1 then fromUtf8 b else addr))"
| "assignField (n, LengthDelimited b) (QueryValidatorsRequest status pagination) =
     (if n = 1 then Some (QueryValidatorsRequest (fromUtf8 b) pagination)
      else if n = 2 then paged (QueryValidatorsRequest status) b
      else Some (QueryValidatorsRequest status pagination))"
| "assignField f message = Some message"

text \<open>
  Modelled from the spec: the decoders of the request message types (the generated
  \<open>decode\<close> functions are not part of the class): the decode loop over the fields
  read, from the base message of the type.
\<close>

definition wire_decode :: "requestType \<Rightarrow> bytes \<Rightarrow> request option" where
  "wire_decode T = decodeMessage (requestSchema T) assignField (createBase T)"

text \<open>
  The identifiers a \<open>uint32\<close> field can carry, and the requests whose identifier is
  one of them.
\<close>

definition uint32 :: "int \<Rightarrow> bool" where
  "uint32 v = (0 \<le> v \<and> v < 2 ^ 32)"

fun identifierInRange :: "request \<Rightarrow> bool" where
  "identifierInRange (QueryGetSubaccountRequest owner number) = uint32 number"
| "identifierInRange (QueryGetClobPairRequest ident) = uint32 ident"
| "identifierInRange (QueryMarketPriceRequest ident) = uint32 ident"
| "identifierInRange (QueryPerpetualRequest ident) = uint32 ident"
| "identifierInRange message = True"

section \<open>Fixtures\<close>

text \<open>
  A gateway to run the methods on: modules whose codecs speak the wire format above, a
  Tendermint client that returns a fixed block, and a query client that answers each
  path with the reply a table fixes for it. The world counts the calls served.
\<close>

subsection \<open>Response decoders\<close>

text \<open>
  Decoders of the four responses a method looks into, in the same wire format, for the
  replies of the fixture.
\<close>

definition Coin_fields :: schema where
  "Coin_fields = map_of [(1, LengthDelimitedKind), (2, LengthDelimitedKind)]"

fun Coin_assign :: "field \<Rightarrow> Coin \<Rightarrow> Coin option" where
  "Coin_assign (n, LengthDelimited b) coin =
     Some (if n = 1 then coin\<lparr>denom := fromUtf8 b\<rparr>
           else if n = 2 then coin\<lparr>amount := fromUtf8 b\<rparr>
           else coin)"
| "Coin_assign f coin = Some coin"

definition Coin_decode :: "bytes \<Rightarrow> Coin option" where
  "Coin_decode = decodeMessage Coin_fields Coin_assign \<lparr>denom = '''', amount = ''''\<rparr>"

definition UserStats_fields :: schema where
  "UserStats_fields = map_of [(1, VarintKind), (2, VarintKind)]"

fun UserStats_assign :: "field \<Rightarrow> UserStats \<Rightarrow> UserStats option" where
  "UserStats_assign (n, Varint v) u =
     Some (if n = 1 then u\<lparr>takerNotional := of_nat v\<rparr>
           else if n = 2 then u\<lparr>makerNotional := of_nat v\<rparr>
           else u)"
| "UserStats_assign f u = Some u"

definition UserStats_decode :: "bytes \<Rightarrow> UserStats option" where
  "UserStats_decode =
     decodeMessage UserStats_fields UserStats_assign \<lparr>takerNotional = 0, makerNotional = 0\<rparr>"

definition Any_fields :: schema where
  "Any_fields = map_of [(1, LengthDelimitedKind), (2, LengthDelimitedKind)]"

fun Any_assign :: "field \<Rightarrow> Any \<Rightarrow> Any option" where
  "Any_assign (n, LengthDelimited b) (Any url v) =
     Some (if n = 1 then Any (fromUtf8 b) v else if n = 2 then Any url b else Any url v)"
| "Any_assign f a = Some a"

definition Any_decode :: "bytes \<Rightarrow> Any option" where
  "Any_decode = decodeMessage Any_fields Any_assign (Any '''' [])"

definition message_field :: schema where
  "message_field = map_of [(1, LengthDelimitedKind)]"

fun QueryUserStatsResponse_assign ::
  "field \<Rightarrow> QueryUserStatsResponse \<Rightarrow> QueryUserStatsResponse option" where
  "QueryUserStatsResponse_assign (n, LengthDelimited b) r =
     (if n = 1 then map_option (\<lambda>u. r\<lparr>stats := Some u\<rparr>) (UserStats_decode b) else Some r)"
| "QueryUserStatsResponse_assign f r = Some r"

fun QueryAllBalancesResponse_assign ::
  "field \<Rightarrow> QueryAllBalancesResponse \<Rightarrow> QueryAllBalancesResponse option" where
  "QueryAllBalancesResponse_assign (n, LengthDelimited b) r =
     (if n = 1 then map_option (\<lambda>c. r\<lparr>balances := balances r @ [c]\<rparr>) (Coin_decode b)
      else Some r)"
| "QueryAllBalancesResponse_assign f r = Some r"

fun QueryBalanceResponse_assign ::
  "field \<Rightarrow> QueryBalanceResponse \<Rightarrow> QueryBalanceResponse option" where
  "QueryBalanceResponse_assign (n, LengthDelimited b) r =
     (if n = 1 then map_option (\<lambda>c. r\<lparr>balance := Some c\<rparr>) (Coin_decode b) else Some r)"
| "QueryBalanceResponse_assign f r = Some r"

fun QueryAccountResponse_assign ::
  "field \<Rightarrow> QueryAccountResponse \<Rightarrow> QueryAccountResponse option" where
  "QueryAccountResponse_assign (n, LengthDelimited b) r =
     (if n = 1 then map_option (\<lambda>a. r\<lparr>account := Some a\<rparr>) (Any_decode b) else Some r)"
| "QueryAccountResponse_assign f r = Some r"

text \<open>
  A stand-in for \<open>accountFromAny\<close>: it knows the base account (address, public key,
  account number, sequence; the numbers 64-bit, refused above the largest safe integer)
  and refuses every other type. The library function knows more account types.
\<close>

definition BaseAccount_fields :: schema where
  "BaseAccount_fields =
     map_of [(1, LengthDelimitedKind), (2, LengthDelimitedKind), (3, VarintKind), (4, VarintKind)]"

fun BaseAccount_assign :: "field \<Rightarrow> Account \<Rightarrow> Account option" where
  "BaseAccount_assign (n, LengthDelimited b) (Account addr pk num sq) =
     (if n = 1 then Some (Account (fromUtf8 b) pk num sq)
      else if n = 2 then map_option (\<lambda>k. Account addr (Some (anyValue k)) num sq) (Any_decode b)
      else Some (Account addr pk num sq))"
| "BaseAccount_assign (n, Varint v) (Account addr pk num sq) =
     Some (if n = 3 then Account addr pk (unat (of_nat v :: 64 word)) sq
           else if n = 4 then Account addr pk num (unat (of_nat v :: 64 word))
           else Account addr pk num sq)"

definition orThrow :: "'a option \<Rightarrow> string + 'a" where
  "orThrow r = (case r of None \<Rightarrow> Inl ''invalid wire format'' | Some a \<Rightarrow> Inr a)"

fun safeNumbers :: "Account \<Rightarrow> string + Account" where
  "safeNumbers (Account addr pk num sq) =
     (if num \<le> 9007199254740991 \<and> sq \<le> 9007199254740991 then Inr (Account addr pk num sq)
      else Inl ''Integer exceeds safe range'')"

definition wire_accountFromAny :: "Any \<Rightarrow> string + Account" where
  "wire_accountFromAny input =
     (if typeUrl input = ''/cosmos.auth.v1beta1.BaseAccount''
      then (case decodeMessage BaseAccount_fields BaseAccount_assign (Account '''' None 0 0)
                   (anyValue input) of
              None \<Rightarrow> Inl ''invalid wire format''
            | Some a \<Rightarrow> safeNumbers a)
      else Inl ''Unsupported type'')"

subsection \<open>Modules, clients and states\<close>

text \<open>
  Modelled from the spec: the shared pagination default (the constant is imported from
  the constants module, outside the class), a descriptor of key, offset, limit and the
  count-total and reverse flags: no key, no offset, the largest limit, the total count
  asked for.
\<close>

definition wire_PAGE_REQUEST :: PageRequest where
  "wire_PAGE_REQUEST = \<lparr>key = [], offset = 0, limit = 18446744073709551615, countTotal = True, reverse = False\<rparr>"

text \<open>A response the gateway hands on whole is kept as its bytes.\<close>

definition AllBalances_fields :: schema where
  "AllBalances_fields = map_of [(1, LengthDelimitedKind), (2, LengthDelimitedKind)]"

definition wireModules :: "(string, bytes) modules" where
  "wireModules =
     \<lparr>PAGE_REQUEST = wire_PAGE_REQUEST,
      accountFromAny = wire_accountFromAny,
      encode = wire_encode,
      decode_QueryPerpetualFeeParamsResponse = Inr,
      decode_QueryUserFeeTierResponse = Inr,
      decode_QueryUserStatsResponse =
        (\<lambda>data. orThrow (decodeMessage message_field QueryUserStatsResponse_assign \<lparr>stats = None\<rparr> data)),
      decode_QueryAllBalancesResponse =
        (\<lambda>data. orThrow (decodeMessage AllBalances_fields QueryAllBalancesResponse_assign \<lparr>balances = []\<rparr> data)),
      decode_QueryBalanceResponse =
        (\<lambda>data. orThrow (decodeMessage message_field QueryBalanceResponse_assign \<lparr>balance = None\<rparr> data)),
      decode_QuerySubaccountAllResponse = Inr,
      decode_QuerySubaccountResponse = Inr,
      decode_QueryParamsResponse = Inr,
      decode_QueryClobPairAllResponse = Inr,
      decode_QueryClobPairResponse = Inr,
      decode_QueryAllMarketPricesResponse = Inr,
      decode_QueryMarketPriceResponse = Inr,
      decode_QueryAllPerpetualsResponse = Inr,
      decode_QueryPerpetualResponse = Inr,
      decode_QueryAccountResponse =
        (\<lambda>data. orThrow (decodeMessage message_field QueryAccountResponse_assign \<lparr>account = None\<rparr> data)),
      decode_QueryEquityTierLimitConfigurationResponse = Inr,
      decode_QueryDelegatorDelegationsResponse = Inr,
      decode_QueryDelegatorUnbondingDelegationsResponse = Inr,
      decode_QueryDelayedCompleteBridgeMessagesResponse = Inr,
      decode_QueryValidatorsResponse = Inr\<rparr>"

definition mockTendermintClient :: "Block \<Rightarrow> (nat, string) TendermintClient" where
  "mockTendermintClient block = \<lparr>getBlock = (\<lambda>w. (Inr block, Suc w))\<rparr>"

definition failingTendermintClient :: "string \<Rightarrow> (nat, string) TendermintClient" where
  "failingTendermintClient message = \<lparr>getBlock = (\<lambda>w. (Inl message, Suc w))\<rparr>"

definition mockQueryClient ::
  "(string \<times> (string + bytes)) list \<Rightarrow> (nat, string) StargateQueryClient" where
  "mockQueryClient table =
     \<lparr>queryUnverified = (\<lambda>path payload w.
        (case map_of table path of None \<Rightarrow> Inl ''unknown service'' | Some r \<Rightarrow> r, Suc w))\<rparr>"

definition fixtureBlock :: Block where
  "fixtureBlock = \<lparr>header = \<lparr>height = 12345\<rparr>\<rparr>"

definition fixtureState :: "(string \<times> (string + bytes)) list \<Rightarrow> (nat, string) state" where
  "fixtureState table =
     \<lparr>this = Get_constructor (mockTendermintClient fixtureBlock) (mockQueryClient table),
      world = 0, calls = []\<rparr>"

definition offlineState :: "(nat, string) state" where
  "offlineState =
     \<lparr>this = Get_constructor (failingTendermintClient ''connection refused'') (mockQueryClient []),
      world = 0, calls = []\<rparr>"

text \<open>Replies for the table: a balance of one denomination, a user's volumes, an account.\<close>

definition fixtureCoin :: Coin where
  "fixtureCoin = \<lparr>denom = ''adv4tnt'', amount = ''1000''\<rparr>"

definition balanceReply :: bytes where
  "balanceReply =
     writeFields [(1, LengthDelimited (writeFields
       [(1, LengthDelimited (toUtf8 ''adv4tnt'')), (2, LengthDelimited (toUtf8 ''1000''))]))]"

definition fixtureStats :: UserStats where
  "fixtureStats = \<lparr>takerNotional = 7, makerNotional = 300\<rparr>"

definition statsReply :: bytes where
  "statsReply = writeFields [(1, LengthDelimited (writeFields [(1, Varint 7), (2, Varint 300)]))]"

definition fixtureAny :: Any where
  "fixtureAny = Any ''/cosmos.auth.v1beta1.BaseAccount''
     (writeFields [(1, LengthDelimited (toUtf8 ''dydx1abc'')), (3, Varint 5), (4, Varint 2)])"

definition accountReply :: bytes where
  "accountReply =
     writeFields [(1, LengthDelimited (writeFields
       [(1, LengthDelimited (toUtf8 ''/cosmos.auth.v1beta1.BaseAccount'')),
        (2, LengthDelimited (writeFields
          [(1, LengthDelimited (toUtf8 ''dydx1abc'')), (3, Varint 5), (4, Varint 2)]))]))]"

section \<open>Properties\<close>

subsection \<open>Promises, the pipeline and the methods\<close>

lemmas promise_defs = await_def resolve_def throw_def attempt_def returning_def

lemmas method_defs =
  getFeeTiers_def getUserFeeTier_def getUserStats_def getAccountBalances_def
  getAccountBalance_def getSubaccounts_def getSubaccount_def getRewardsParams_def
  getAllClobPairs_def getClobPair_def getAllPrices_def getPrice_def getAllPerpetuals_def
  getPerpetual_def getAccount_def getEquityTierLimitConfiguration_def
  getDelegatorDelegations_def getDelegatorUnbondingDelegations_def
  getDelayedCompleteBridgeMessages_def getAllValidators_def

lemma sendQuery_result:
  "fst (sendQuery p d s) = settle (fst (queryUnverified (stargateQueryClient (this s)) p d (world s)))"
  by (simp add: sendQuery_def split: prod.split)

lemma sendQuery_state:
  "snd (sendQuery p d s) =
     s\<lparr>world := snd (queryUnverified (stargateQueryClient (this s)) p d (world s)),
       calls := calls s @ [QueryUnverified p d]\<rparr>"
  by (simp add: sendQuery_def split: prod.split)

lemma await_result:
  "fst (await p k s) = (case fst (p s) of Inl e \<Rightarrow> Inl e | Inr a \<Rightarrow> fst (k a (snd (p s))))"
  by (simp add: await_def split: prod.split sum.split)

lemma await_state:
  "snd (await p k s) = (case fst (p s) of Inl e \<Rightarrow> snd (p s) | Inr a \<Rightarrow> snd (k a (snd (p s))))"
  by (simp add: await_def split: prod.split sum.split)

lemma attempt_state: "snd (attempt r s) = s"
  by (simp add: attempt_def)

lemma attempt_result: "fst (attempt r s) = settle r"
  by (simp add: attempt_def)

lemma finish_state: "snd (finish M r s) = s"
  by (cases r) (simp_all add: promise_defs settle_def split: option.split sum.split)

lemma finish_result: "fst (finish M r s) = fst (finish M r s')"
  by (cases r) (simp_all add: promise_defs settle_def split: option.split sum.split)

lemma finish_outcome: "fst (finish M r s) = outcome M r"
  by (cases r) (simp_all add: promise_defs settle_def split: option.split sum.split)

lemma invokeQuery_pipeline:
  "invokeQuery M q s = pipeline M (wirePath q) (requestOf M q) (responseTypeOf q) s"
  by (cases q)
    (simp_all add: method_defs pipeline_def promise_defs settle_def
      split: prod.split sum.split option.split)

declare invokeQuery.simps [simp del]

lemma pipeline_state:
  "snd (pipeline M path message T s) =
     s\<lparr>world := snd (queryUnverified (stargateQueryClient (this s)) path (encode M message) (world s)),
       calls := calls s @ [QueryUnverified path (encode M message)]\<rparr>"
  by (simp add: pipeline_def await_state sendQuery_state attempt_state finish_state split: sum.split)

lemma pipeline_result:
  "fst (pipeline M path message T s) =
     (case fst (queryUnverified (stargateQueryClient (this s)) path (encode M message) (world s)) of
        Inl x \<Rightarrow> Inl (Thrown x)
      | Inr data \<Rightarrow>
          (case decodeAs M T data of
             Inl x \<Rightarrow> Inl (Thrown x)
           | Inr r \<Rightarrow> fst (finish M r s)))"
proof -
  have "fst (finish M r (snd (sendQuery path (encode M message) s))) = fst (finish M r s)" for r
    by (rule finish_result)
  then show ?thesis
    by (simp add: pipeline_def await_result sendQuery_result attempt_result attempt_state
        settle_def split: sum.split)
qed

lemma latestBlock_result:
  "fst (latestBlock s) = settle (fst (getBlock (tendermintClient (this s)) (world s)))"
  by (simp add: latestBlock_def split: prod.split)

lemma latestBlock_state:
  "snd (latestBlock s) =
     s\<lparr>world := snd (getBlock (tendermintClient (this s)) (world s)), calls := calls s @ [GetBlock]\<rparr>"
  by (simp add: latestBlock_def split: prod.split)

lemma resolve_result: "fst (resolve a s) = Inr a"
  by (simp add: resolve_def)

lemma resolve_state: "snd (resolve a s) = s"
  by (simp add: resolve_def)

lemma typeOf_requestOf: "typeOf (requestOf M q) = requestTypeOf q"
  by (cases q) simp_all

lemma requestOf_encode: "requestOf (M\<lparr>encode := e\<rparr>) q = requestOf M q"
  by (cases q) simp_all

lemma path_request: "(wirePath q = wirePath q') = (requestTypeOf q = requestTypeOf q')"
  by (cases q; cases q'; simp)

lemma path_response: "(wirePath q = wirePath q') = (responseTypeOf q = responseTypeOf q')"
  by (cases q; cases q'; simp)

lemma invoke_this: "this (snd (invoke M i s)) = this s"
proof (cases i)
  case LatestBlock
  then show ?thesis
    by (simp add: returning_def await_state latestBlock_state resolve_state split: sum.split)
next
  case LatestBlockHeight
  then show ?thesis
    by (simp add: returning_def latestBlockHeight_def await_state latestBlock_state resolve_state
        split: sum.split)
next
  case (Query q)
  then show ?thesis by (simp add: invokeQuery_pipeline pipeline_state)
qed

lemma invoke_result:
  assumes "transportReply M i s = transportReply M i s'"
  shows "fst (invoke M i s) = fst (invoke M i s')"
proof (cases i)
  case LatestBlock
  with assms show ?thesis
    by (simp add: returning_def await_result latestBlock_result resolve_result split: sum.split)
next
  case LatestBlockHeight
  with assms show ?thesis
    by (simp add: returning_def latestBlockHeight_def await_result await_state latestBlock_result
        resolve_result resolve_state split: sum.split)
next
  case (Query q)
  have "fst (finish M r s) = fst (finish M r s')" for r
    by (rule finish_result)
  with Query assms show ?thesis
    by (simp add: invokeQuery_pipeline pipeline_result split: sum.split)
qed

subsection \<open>The wire format reads back what it wrote\<close>

lemma readVarint_varint: "readVarint (varint n @ rest) = Some (n, rest)"
proof (induction n rule: varint.induct)
  case (1 n)
  show ?case
  proof (cases "n < 128")
    case True
    then have "unat (of_nat n :: 8 word) = n" by (simp add: unat_of_nat)
    moreover from True have "(of_nat n :: 8 word) < 128"
      by (simp add: word_less_nat_alt unat_of_nat)
    ultimately show ?thesis using True by (simp add: varint.simps [of n])
  next
    case False
    let ?b = "of_nat (128 + n mod 128) :: 8 word"
    have "unat ?b = (128 + n mod 128) mod 2 ^ LENGTH(8)" by (rule unat_of_nat)
    also have "\<dots> = 128 + n mod 128" by simp
    finally have u: "unat ?b = 128 + n mod 128" .
    then have nb: "\<not> ?b < 128" by (simp add: word_less_nat_alt)
    from False 1 have "readVarint (varint (n div 128) @ rest) = Some (n div 128, rest)" by simp
    with False u nb show ?thesis by (simp add: varint.simps [of n])
  qed
qed

lemma varint_not_Nil: "varint n \<noteq> []"
  by (simp add: varint.simps [of n])

lemma readLengthDelimited_written:
  "readLengthDelimited (varint (length b) @ b @ rest) = Some (b, rest)"
  by (simp add: readLengthDelimited_def readVarint_varint)

lemma readField_writeField:
  assumes "conforms known f"
  shows "readField known (writeField f @ rest) = Some (Some f, rest)"
proof (cases f)
  case (Pair n w)
  show ?thesis
  proof (cases w)
    case (Varint v)
    with Pair assms show ?thesis
      by (simp add: readField_def readVarint_varint conforms_def)
  next
    case (LengthDelimited b)
    have "(8 * n + 2) div 8 = n" by presburger
    with Pair LengthDelimited assms show ?thesis
      by (simp add: readField_def readVarint_varint readLengthDelimited_written conforms_def)
  qed
qed

lemma writeField_not_Nil: "writeField f @ rest \<noteq> []"
  by (cases f rule: writeField.cases) (simp_all add: varint_not_Nil)

lemma readFields_writeFields:
  "list_all (conforms known) fs \<Longrightarrow> readFields known (writeFields fs) = Some fs"
proof (induction fs)
  case Nil
  show ?case by (simp add: writeFields_def readFields.simps)
next
  case (Cons f fs)
  then show ?case
    using writeField_not_Nil [of f "writeFields fs"]
    by (simp add: writeFields_def readFields.simps [of known "writeField f @ _"]
        readField_writeField)
qed

lemma decodeMessage_writeFields:
  "list_all (conforms known) fs \<Longrightarrow>
   decodeMessage known assign base (writeFields fs) = foldFields assign fs base"
  by (simp add: decodeMessage_def readFields_writeFields)

lemma decodeMessage_Nil: "decodeMessage known assign base [] = Some base"
  by (simp add: decodeMessage_def readFields.simps)

lemma fromUtf8_toUtf8: "fromUtf8 (toUtf8 str) = str"
proof -
  have "char_of (unat (of_nat (of_char c) :: 8 word)) = c" for c
    by (simp add: unat_of_nat)
  then show ?thesis
    by (simp add: fromUtf8_def toUtf8_def comp_def)
qed

lemmas field_defs =
  bytesField_def stringField_def uint64Field_def uint32Field_def boolField_def messageField_def

lemma PageRequest_conforms:
  "list_all (conforms PageRequest_fields)
     (bytesField 1 (key message) @ uint64Field 2 (offset message) @ uint64Field 3 (limit message)
       @ boolField 4 (countTotal message) @ boolField 5 (reverse message))"
  by (simp add: field_defs conforms_def PageRequest_fields_def)

lemma PageRequest_roundtrip: "PageRequest_decode (PageRequest_encode message) = Some message"
  using PageRequest_conforms [of message]
  by (cases message)
    (simp add: PageRequest_decode_def PageRequest_encode_def decodeMessage_writeFields
      field_defs createBasePageRequest_def)

lemma requestFields_conform:
  "list_all (conforms (requestSchema (typeOf message))) (requestFields message)"
  by (cases message) (simp_all add: field_defs conforms_def split: option.split)

lemma wire_decode_encode:
  "wire_decode (typeOf message) (wire_encode message) =
     foldFields assignField (requestFields message) (createBase (typeOf message))"
  by (simp add: wire_decode_def wire_encode_def decodeMessage_writeFields requestFields_conform)

lemma readUint32_written:
  assumes "uint32 v"
  shows "readUint32 (nat (v mod 4294967296)) = v"
proof -
  from assms have v: "0 \<le> v" "v < 4294967296"
    by (simp_all add: uint32_def)
  then have "nat v < 4294967296"
    by linarith
  with v show ?thesis
    by (simp add: readUint32_def)
qed

lemma foldFields_requestFields:
  "identifierInRange message \<Longrightarrow>
   foldFields assignField (requestFields message) (createBase (typeOf message)) = Some message"
  by (cases message)
    (auto simp add: field_defs fromUtf8_toUtf8 PageRequest_roundtrip paged_def readUint32_written
      split: option.split)

lemma wire_roundtrip:
  "identifierInRange message \<Longrightarrow> wire_decode (typeOf message) (wire_encode message) = Some message"
  by (simp add: wire_decode_encode foldFields_requestFields)

subsection \<open>Evaluating the fixtures\<close>

lemma varint_small: "n < 128 \<Longrightarrow> varint n = [of_nat n]"
  by (simp add: varint.simps [of n])

lemmas varint_numeral =
  varint.simps [of "numeral k"] varint.simps [of 1] varint.simps [of 0] varint.simps [of "Suc 0"]
  for k

lemma fixture_transport:
  "queryUnverified (stargateQueryClient (this (fixtureState table))) path payload
     (world (fixtureState table)) =
   (case map_of table path of None \<Rightarrow> Inl ''unknown service'' | Some r \<Rightarrow> r, Suc 0)"
  by (simp add: fixtureState_def Get_constructor_def mockQueryClient_def)

lemma decode_balanceReply:
  "decode_QueryBalanceResponse wireModules balanceReply = Inr \<lparr>balance = Some fixtureCoin\<rparr>"
  by (simp add: wireModules_def balanceReply_def fixtureCoin_def orThrow_def Coin_decode_def
      decodeMessage_writeFields fromUtf8_toUtf8 conforms_def message_field_def Coin_fields_def)

lemma decode_empty_balance:
  "decode_QueryBalanceResponse wireModules [] = Inr \<lparr>balance = None\<rparr>"
  by (simp add: wireModules_def orThrow_def decodeMessage_Nil)

lemma decode_statsReply:
  "decode_QueryUserStatsResponse wireModules statsReply = Inr \<lparr>stats = Some fixtureStats\<rparr>"
  by (simp add: wireModules_def statsReply_def fixtureStats_def orThrow_def UserStats_decode_def
      decodeMessage_writeFields conforms_def message_field_def UserStats_fields_def)

lemma decode_empty_stats:
  "decode_QueryUserStatsResponse wireModules [] = Inr \<lparr>stats = None\<rparr>"
  by (simp add: wireModules_def orThrow_def decodeMessage_Nil)

lemma decode_accountReply:
  "decode_QueryAccountResponse wireModules accountReply = Inr \<lparr>account = Some fixtureAny\<rparr>"
  by (simp add: wireModules_def accountReply_def fixtureAny_def orThrow_def Any_decode_def
      decodeMessage_writeFields fromUtf8_toUtf8 conforms_def message_field_def Any_fields_def)

lemma decode_empty_account:
  "decode_QueryAccountResponse wireModules [] = Inr \<lparr>account = None\<rparr>"
  by (simp add: wireModules_def orThrow_def decodeMessage_Nil)

lemma accountFromAny_fixtureAny:
  "accountFromAny wireModules fixtureAny = Inr (Account ''dydx1abc'' None 5 2)"
  by (simp add: wireModules_def wire_accountFromAny_def fixtureAny_def
      decodeMessage_writeFields fromUtf8_toUtf8 conforms_def BaseAccount_fields_def)

lemma wire_page_request:
  "encode wireModules (QueryAllSubaccountRequest (Some (PAGE_REQUEST wireModules))) =
     [10, 13, 24, 255, 255, 255, 255, 255, 255, 255, 255, 255, 1, 32, 1]"
proof -
  have u: "unat (18446744073709551615 :: 64 word) = 18446744073709551615"
    by simp
  have "PageRequest_encode wire_PAGE_REQUEST =
      [24, 255, 255, 255, 255, 255, 255, 255, 255, 255, 1, 32, 1]"
    by (simp add: wire_PAGE_REQUEST_def PageRequest_encode_def bytesField_def uint64Field_def
        boolField_def writeFields_def u varint_numeral)
  then show ?thesis
    by (simp add: wireModules_def wire_encode_def messageField_def writeFields_def varint_numeral
        varint_small)
qed

lemma method_state:
  "snd (await (sendQuery path payload) (\<lambda>data. attempt (dec data)) s) =
     s\<lparr>world := snd (queryUnverified (stargateQueryClient (this s)) path payload (world s)),
       calls := calls s @ [QueryUnverified path payload]\<rparr>"
  by (simp add: await_state sendQuery_state attempt_state split: sum.split)

section \<open>The claims\<close>

text \<open>
  C1. \<open>getAccount\<close>, when the transport returns bytes and they decode to a
  \<open>QueryAccountResponse\<close>: if the \<open>account\<close> field is undefined, the promise is
  rejected with \<open>UnexpectedClientError\<close>; if it is defined, the promise settles as
  \<open>accountFromAny\<close> of the field does (the account it returns, or what it throws),
  and never with \<open>UnexpectedClientError\<close>.
\<close>

theorem getAccount_unexpected_response:
  assumes "queryUnverified (stargateQueryClient (this s)) ''/cosmos.auth.v1beta1.Query/Account''
             (encode M (QueryAccountRequest address)) (world s) = (Inr data, w')"
    and "decode_QueryAccountResponse M data = Inr response"
  shows "(account response = None \<longrightarrow> fst (getAccount M address s) = Inl UnexpectedClientError)
       \<and> (\<forall>rawAccount. account response = Some rawAccount \<longrightarrow>
            fst (getAccount M address s) = settle (accountFromAny M rawAccount)
            \<and> fst (getAccount M address s) \<noteq> Inl UnexpectedClientError
            \<and> (\<forall>acc. accountFromAny M rawAccount = Inr acc \<longrightarrow>
                  fst (getAccount M address s) = Inr acc))"
  using assms
  by (auto simp add: getAccount_def await_def sendQuery_def attempt_def settle_def throw_def
      split: sum.split)

text \<open>
  On the fixture: an empty reply decodes to a response without account and is rejected;
  a reply carrying a base account resolves to that account.
\<close>

theorem getAccount_unexpected_response_witness:
  "fst (getAccount wireModules ''dydx1abc''
         (fixtureState [(''/cosmos.auth.v1beta1.Query/Account'', Inr [])]))
     = Inl UnexpectedClientError
   \<and> fst (getAccount wireModules ''dydx1abc''
         (fixtureState [(''/cosmos.auth.v1beta1.Query/Account'', Inr accountReply)]))
     = Inr (Account ''dydx1abc'' None 5 2)"
proof -
  let ?absent = "fixtureState [(''/cosmos.auth.v1beta1.Query/Account'', Inr [])]"
  let ?present = "fixtureState [(''/cosmos.auth.v1beta1.Query/Account'', Inr accountReply)]"
  have a: "queryUnverified (stargateQueryClient (this ?absent)) ''/cosmos.auth.v1beta1.Query/Account''
      (encode wireModules (QueryAccountRequest ''dydx1abc'')) (world ?absent) = (Inr [], Suc 0)"
    by (simp add: fixture_transport)
  have p: "queryUnverified (stargateQueryClient (this ?present)) ''/cosmos.auth.v1beta1.Query/Account''
      (encode wireModules (QueryAccountRequest ''dydx1abc'')) (world ?present)
      = (Inr accountReply, Suc 0)"
    by (simp add: fixture_transport)
  from getAccount_unexpected_response [OF a decode_empty_account]
    getAccount_unexpected_response [OF p decode_accountReply]
  show ?thesis
    by (simp add: accountFromAny_fixtureAny settle_def)
qed

text \<open>
  C2, as the code has it. The six methods \<open>getAllClobPairs\<close>, \<open>getAllPrices\<close>,
  \<open>getAllPerpetuals\<close>, \<open>getDelegatorDelegations\<close>,
  \<open>getDelegatorUnbondingDelegations\<close> and \<open>getAllValidators\<close> take no pagination
  argument, and every call of one sends the encoding of a request whose pagination field
  is \<open>PAGE_REQUEST\<close>: the very bytes of the request built with the default supplied.
  \<open>getDelayedCompleteBridgeMessages\<close> sends the encoding of its address alone; its
  request type has no pagination field.
\<close>

theorem pagination_default_attached:
  "calls (snd (getAllClobPairs M s)) =
     calls s @ [QueryUnverified ''/dydxprotocol.clob.Query/ClobPairAll''
       (encode M (QueryAllClobPairRequest (Some (PAGE_REQUEST M))))]
   \<and> calls (snd (getAllPrices M s)) =
     calls s @ [QueryUnverified ''/dydxprotocol.prices.Query/AllMarketPrices''
       (encode M (QueryAllMarketPricesRequest (Some (PAGE_REQUEST M))))]
   \<and> calls (snd (getAllPerpetuals M s)) =
     calls s @ [QueryUnverified ''/dydxprotocol.perpetuals.Query/AllPerpetuals''
       (encode M (QueryAllPerpetualsRequest (Some (PAGE_REQUEST M))))]
   \<and> calls (snd (getDelegatorDelegations M delegatorAddr s)) =
     calls s @ [QueryUnverified ''/cosmos.staking.v1beta1.Query/DelegatorDelegations''
       (encode M (QueryDelegatorDelegationsRequest delegatorAddr (Some (PAGE_REQUEST M))))]
   \<and> calls (snd (getDelegatorUnbondingDelegations M delegatorAddr s)) =
     calls s @ [QueryUnverified ''/cosmos.staking.v1beta1.Query/DelegatorUnbondingDelegations''
       (encode M (QueryDelegatorUnbondingDelegationsRequest delegatorAddr (Some (PAGE_REQUEST M))))]
   \<and> calls (snd (getAllValidators M None s)) =
     calls s @ [QueryUnverified ''/cosmos.staking.v1beta1.Query/Validators''
       (encode M (QueryValidatorsRequest '''' (Some (PAGE_REQUEST M))))]
   \<and> calls (snd (getAllValidators M (Some status) s)) =
     calls s @ [QueryUnverified ''/cosmos.staking.v1beta1.Query/Validators''
       (encode M (QueryValidatorsRequest status (Some (PAGE_REQUEST M))))]
   \<and> calls (snd (getDelayedCompleteBridgeMessages M None s)) =
     calls s @ [QueryUnverified ''/dydxprotocol.bridge.Query/DelayedCompleteBridgeMessages''
       (encode M (QueryDelayedCompleteBridgeMessagesRequest ''''))]
   \<and> calls (snd (getDelayedCompleteBridgeMessages M (Some address) s)) =
     calls s @ [QueryUnverified ''/dydxprotocol.bridge.Query/DelayedCompleteBridgeMessages''
       (encode M (QueryDelayedCompleteBridgeMessagesRequest address))]"
  by (simp add: getAllClobPairs_def getAllPrices_def getAllPerpetuals_def
      getDelegatorDelegations_def getDelegatorUnbondingDelegations_def getAllValidators_def
      getDelayedCompleteBridgeMessages_def method_state)

text \<open>
  C2 as stated fails for two of the eight methods it lists. With the reference codec,
  \<open>getSubaccounts\<close> and \<open>getDelayedCompleteBridgeMessages\<close> (called without an
  address) each send the empty payload, while the subaccounts request with the default
  descriptor supplied is fifteen bytes long.
\<close>

theorem pagination_default_counterexample:
  "calls (snd (getSubaccounts wireModules (fixtureState []))) =
     [QueryUnverified ''/dydxprotocol.subaccounts.Query/SubaccountAll'' []]
   \<and> calls (snd (getDelayedCompleteBridgeMessages wireModules None (fixtureState []))) =
     [QueryUnverified ''/dydxprotocol.bridge.Query/DelayedCompleteBridgeMessages'' []]
   \<and> encode wireModules (QueryAllSubaccountRequest (Some (PAGE_REQUEST wireModules))) =
     [10, 13, 24, 255, 255, 255, 255, 255, 255, 255, 255, 255, 1, 32, 1]"
proof -
  have "encode wireModules (QueryAllSubaccountRequest None) = []"
    "encode wireModules (QueryDelayedCompleteBridgeMessagesRequest '''') = []"
    by (simp_all add: wireModules_def wire_encode_def messageField_def stringField_def
        writeFields_def)
  moreover have "calls (fixtureState []) = []"
    by (simp add: fixtureState_def)
  ultimately show ?thesis
    by (simp add: getSubaccounts_def getDelayedCompleteBridgeMessages_def method_state
        wire_page_request)
qed

text \<open>
  C3. \<open>getAccountBalance\<close>, when the transport returns bytes and they decode to a
  \<open>QueryBalanceResponse\<close>: without a balance entry the promise resolves to the
  absent value, no error; with one, it resolves to exactly that coin.
\<close>

theorem getAccountBalance_absent_or_exact:
  assumes "queryUnverified (stargateQueryClient (this s)) ''/cosmos.bank.v1beta1.Query/Balance''
             (encode M (QueryBalanceRequest address denom')) (world s) = (Inr data, w')"
    and "decode_QueryBalanceResponse M data = Inr response"
  shows "(balance response = None \<longrightarrow> fst (getAccountBalance M address denom' s) = Inr None)
       \<and> (\<forall>coin. balance response = Some coin \<longrightarrow>
            fst (getAccountBalance M address denom' s) = Inr (Some coin))"
  using assms
  by (simp add: getAccountBalance_def await_def sendQuery_def attempt_def settle_def resolve_def)

theorem getAccountBalance_absent_or_exact_witness:
  "fst (getAccountBalance wireModules ''dydx1abc'' ''adv4tnt''
         (fixtureState [(''/cosmos.bank.v1beta1.Query/Balance'', Inr [])])) = Inr None
   \<and> fst (getAccountBalance wireModules ''dydx1abc'' ''adv4tnt''
         (fixtureState [(''/cosmos.bank.v1beta1.Query/Balance'', Inr balanceReply)]))
       = Inr (Some \<lparr>denom = ''adv4tnt'', amount = ''1000''\<rparr>)"
proof -
  let ?absent = "fixtureState [(''/cosmos.bank.v1beta1.Query/Balance'', Inr [])]"
  let ?present = "fixtureState [(''/cosmos.bank.v1beta1.Query/Balance'', Inr balanceReply)]"
  have a: "queryUnverified (stargateQueryClient (this ?absent)) ''/cosmos.bank.v1beta1.Query/Balance''
      (encode wireModules (QueryBalanceRequest ''dydx1abc'' ''adv4tnt'')) (world ?absent)
      = (Inr [], Suc 0)"
    by (simp add: fixture_transport)
  have p: "queryUnverified (stargateQueryClient (this ?present)) ''/cosmos.bank.v1beta1.Query/Balance''
      (encode wireModules (QueryBalanceRequest ''dydx1abc'' ''adv4tnt'')) (world ?present)
      = (Inr balanceReply, Suc 0)"
    by (simp add: fixture_transport)
  from getAccountBalance_absent_or_exact [OF a decode_empty_balance]
    getAccountBalance_absent_or_exact [OF p decode_balanceReply]
  show ?thesis
    by (simp add: fixtureCoin_def)
qed

text \<open>
  C4. \<open>latestBlock\<close> is one call of \<open>getBlock\<close> on the Tendermint client: it
  settles as that call does and leaves the world as that call left it, with the call
  appended to the log. \<open>latestBlockHeight\<close> is the same one call, nothing on the
  query transport: it resolves to the \<open>header.height\<close> of the block \<open>getBlock\<close>
  returned, which is the block \<open>latestBlock\<close> resolves to, is rejected as
  \<open>latestBlock\<close> is rejected, and leaves the very state \<open>latestBlock\<close> leaves.
\<close>

theorem latestBlockHeight_of_latestBlock:
  "latestBlock s =
     (case fst (getBlock (tendermintClient (this s)) (world s)) of
        Inl x \<Rightarrow> Inl (Thrown x)
      | Inr block \<Rightarrow> Inr block,
      s\<lparr>world := snd (getBlock (tendermintClient (this s)) (world s)),
        calls := calls s @ [GetBlock]\<rparr>)
   \<and> latestBlockHeight s =
     (case fst (getBlock (tendermintClient (this s)) (world s)) of
        Inl x \<Rightarrow> Inl (Thrown x)
      | Inr block \<Rightarrow> Inr (height (header block)),
      s\<lparr>world := snd (getBlock (tendermintClient (this s)) (world s)),
        calls := calls s @ [GetBlock]\<rparr>)
   \<and> fst (latestBlockHeight s) = map_sum id (\<lambda>block. height (header block)) (fst (latestBlock s))
   \<and> snd (latestBlockHeight s) = snd (latestBlock s)
   \<and> calls (snd (latestBlockHeight s)) = calls s @ [GetBlock]"
  by (simp add: prod_eq_iff latestBlockHeight_def await_result await_state resolve_result
      resolve_state latestBlock_state latestBlock_result settle_def split: sum.split)

text \<open>
  On the fixture, a block at height 12345 makes \<open>latestBlockHeight\<close> resolve to
  12345 after one call served.
\<close>

lemma latestBlockHeight_fixture:
  "latestBlockHeight (fixtureState []) =
     (Inr 12345, (fixtureState [])\<lparr>world := Suc 0, calls := [GetBlock]\<rparr>)"
  by (simp add: prod_eq_iff latestBlockHeight_def await_result await_state latestBlock_result
      latestBlock_state resolve_result resolve_state fixtureState_def Get_constructor_def
      mockTendermintClient_def fixtureBlock_def settle_def)

text \<open>
  C5. A call of a query method is one call of \<open>queryUnverified\<close> on the one path of
  the method, whatever the arguments, with the encoding of a request of the request type
  bound to the method; what the transport returns is decoded with the response type
  bound to the method, and the call settles by what was decoded. Path, request type and
  response type go together one to one: two calls use the same path exactly when they
  use the same request type, and exactly when they use the same response type. For the
  four methods whose paths the specification names, the same is spelt out on the method
  itself, with its literal path and its own encoder and decoder.
\<close>

theorem query_bound_to_path:
  "snd (invokeQuery M q s) =
     s\<lparr>world := snd (queryUnverified (stargateQueryClient (this s)) (wirePath q)
                 (encode M (requestOf M q)) (world s)),
       calls := calls s @ [QueryUnverified (wirePath q) (encode M (requestOf M q))]\<rparr>
   \<and> fst (invokeQuery M q s) =
     (case fst (queryUnverified (stargateQueryClient (this s)) (wirePath q)
                 (encode M (requestOf M q)) (world s)) of
        Inl x \<Rightarrow> Inl (Thrown x)
      | Inr data \<Rightarrow>
          (case decodeAs M (responseTypeOf q) data of
             Inl x \<Rightarrow> Inl (Thrown x)
           | Inr r \<Rightarrow> outcome M r))
   \<and> typeOf (requestOf M q) = requestTypeOf q
   \<and> (wirePath q = wirePath q') = (requestTypeOf q = requestTypeOf q')
   \<and> (wirePath q = wirePath q') = (responseTypeOf q = responseTypeOf q')
   \<and> getAccountBalances M address s =
     (case fst (queryUnverified (stargateQueryClient (this s))
                 ''/cosmos.bank.v1beta1.Query/AllBalances''
                 (encode M (QueryAllBalancesRequest address None)) (world s)) of
        Inl x \<Rightarrow> Inl (Thrown x)
      | Inr data \<Rightarrow>
          (case decode_QueryAllBalancesResponse M data of
             Inl x \<Rightarrow> Inl (Thrown x)
           | Inr response \<Rightarrow> Inr (balances response)),
      s\<lparr>world := snd (queryUnverified (stargateQueryClient (this s))
                 ''/cosmos.bank.v1beta1.Query/AllBalances''
                 (encode M (QueryAllBalancesRequest address None)) (world s)),
        calls := calls s @ [QueryUnverified ''/cosmos.bank.v1beta1.Query/AllBalances''
                 (encode M (QueryAllBalancesRequest address None))]\<rparr>)
   \<and> getClobPair M pairId s =
     (case fst (queryUnverified (stargateQueryClient (this s))
                 ''/dydxprotocol.clob.Query/ClobPair''
                 (encode M (QueryGetClobPairRequest pairId)) (world s)) of
        Inl x \<Rightarrow> Inl (Thrown x)
      | Inr data \<Rightarrow>
          (case decode_QueryClobPairResponse M data of
             Inl x \<Rightarrow> Inl (Thrown x)
           | Inr response \<Rightarrow> Inr response),
      s\<lparr>world := snd (queryUnverified (stargateQueryClient (this s))
                 ''/dydxprotocol.clob.Query/ClobPair''
                 (encode M (QueryGetClobPairRequest pairId)) (world s)),
        calls := calls s @ [QueryUnverified ''/dydxprotocol.clob.Query/ClobPair''
                 (encode M (QueryGetClobPairRequest pairId))]\<rparr>)
   \<and> getPrice M marketId s =
     (case fst (queryUnverified (stargateQueryClient (this s))
                 ''/dydxprotocol.prices.Query/MarketPrice''
                 (encode M (QueryMarketPriceRequest marketId)) (world s)) of
        Inl x \<Rightarrow> Inl (Thrown x)
      | Inr data \<Rightarrow>
          (case decode_QueryMarketPriceResponse M data of
             Inl x \<Rightarrow> Inl (Thrown x)
           | Inr response \<Rightarrow> Inr response),
      s\<lparr>world := snd (queryUnverified (stargateQueryClient (this s))
                 ''/dydxprotocol.prices.Query/MarketPrice''
                 (encode M (QueryMarketPriceRequest marketId)) (world s)),
        calls := calls s @ [QueryUnverified ''/dydxprotocol.prices.Query/MarketPrice''
                 (encode M (QueryMarketPriceRequest marketId))]\<rparr>)
   \<and> getAllValidators M (Some status) s =
     (case fst (queryUnverified (stargateQueryClient (this s))
                 ''/cosmos.staking.v1beta1.Query/Validators''
                 (encode M (QueryValidatorsRequest status (Some (PAGE_REQUEST M)))) (world s)) of
        Inl x \<Rightarrow> Inl (Thrown x)
      | Inr data \<Rightarrow>
          (case decode_QueryValidatorsResponse M data of
             Inl x \<Rightarrow> Inl (Thrown x)
           | Inr response \<Rightarrow> Inr response),
      s\<lparr>world := snd (queryUnverified (stargateQueryClient (this s))
                 ''/cosmos.staking.v1beta1.Query/Validators''
                 (encode M (QueryValidatorsRequest status (Some (PAGE_REQUEST M)))) (world s)),
        calls := calls s @ [QueryUnverified ''/cosmos.staking.v1beta1.Query/Validators''
                 (encode M (QueryValidatorsRequest status (Some (PAGE_REQUEST M))))]\<rparr>)"
proof -
  have general: "snd (invokeQuery M q s) =
       s\<lparr>world := snd (queryUnverified (stargateQueryClient (this s)) (wirePath q)
                   (encode M (requestOf M q)) (world s)),
         calls := calls s @ [QueryUnverified (wirePath q) (encode M (requestOf M q))]\<rparr>"
    "fst (invokeQuery M q s) =
       (case fst (queryUnverified (stargateQueryClient (this s)) (wirePath q)
                   (encode M (requestOf M q)) (world s)) of
          Inl x \<Rightarrow> Inl (Thrown x)
        | Inr data \<Rightarrow>
            (case decodeAs M (responseTypeOf q) data of
               Inl x \<Rightarrow> Inl (Thrown x)
             | Inr r \<Rightarrow> outcome M r))"
    by (simp_all add: invokeQuery_pipeline pipeline_state pipeline_result finish_outcome
        cong: sum.case_cong)
  have named: "getAccountBalances M address s =
       (case fst (queryUnverified (stargateQueryClient (this s))
                   ''/cosmos.bank.v1beta1.Query/AllBalances''
                   (encode M (QueryAllBalancesRequest address None)) (world s)) of
          Inl x \<Rightarrow> Inl (Thrown x)
        | Inr data \<Rightarrow>
            (case decode_QueryAllBalancesResponse M data of
               Inl x \<Rightarrow> Inl (Thrown x)
             | Inr response \<Rightarrow> Inr (balances response)),
        s\<lparr>world := snd (queryUnverified (stargateQueryClient (this s))
                   ''/cosmos.bank.v1beta1.Query/AllBalances''
                   (encode M (QueryAllBalancesRequest address None)) (world s)),
          calls := calls s @ [QueryUnverified ''/cosmos.bank.v1beta1.Query/AllBalances''
                   (encode M (QueryAllBalancesRequest address None))]\<rparr>)"
    "getClobPair M pairId s =
       (case fst (queryUnverified (stargateQueryClient (this s))
                   ''/dydxprotocol.clob.Query/ClobPair''
                   (encode M (QueryGetClobPairRequest pairId)) (world s)) of
          Inl x \<Rightarrow> Inl (Thrown x)
        | Inr data \<Rightarrow>
            (case decode_QueryClobPairResponse M data of
               Inl x \<Rightarrow> Inl (Thrown x)
             | Inr response \<Rightarrow> Inr response),
        s\<lparr>world := snd (queryUnverified (stargateQueryClient (this s))
                   ''/dydxprotocol.clob.Query/ClobPair''
                   (encode M (QueryGetClobPairRequest pairId)) (world s)),
          calls := calls s @ [QueryUnverified ''/dydxprotocol.clob.Query/ClobPair''
                   (encode M (QueryGetClobPairRequest pairId))]\<rparr>)"
    "getPrice M marketId s =
       (case fst (queryUnverified (stargateQueryClient (this s))
                   ''/dydxprotocol.prices.Query/MarketPrice''
                   (encode M (QueryMarketPriceRequest marketId)) (world s)) of
          Inl x \<Rightarrow> Inl (Thrown x)
        | Inr data \<Rightarrow>
            (case decode_QueryMarketPriceResponse M data of
               Inl x \<Rightarrow> Inl (Thrown x)
             | Inr response \<Rightarrow> Inr response),
        s\<lparr>world := snd (queryUnverified (stargateQueryClient (this s))
                   ''/dydxprotocol.prices.Query/MarketPrice''
                   (encode M (QueryMarketPriceRequest marketId)) (world s)),
          calls := calls s @ [QueryUnverified ''/dydxprotocol.prices.Query/MarketPrice''
                   (encode M (QueryMarketPriceRequest marketId))]\<rparr>)"
    "getAllValidators M (Some status) s =
       (case fst (queryUnverified (stargateQueryClient (this s))
                   ''/cosmos.staking.v1beta1.Query/Validators''
                   (encode M (QueryValidatorsRequest status (Some (PAGE_REQUEST M)))) (world s)) of
          Inl x \<Rightarrow> Inl (Thrown x)
        | Inr data \<Rightarrow>
            (case decode_QueryValidatorsResponse M data of
               Inl x \<Rightarrow> Inl (Thrown x)
             | Inr response \<Rightarrow> Inr response),
        s\<lparr>world := snd (queryUnverified (stargateQueryClient (this s))
                   ''/cosmos.staking.v1beta1.Query/Validators''
                   (encode M (QueryValidatorsRequest status (Some (PAGE_REQUEST M)))) (world s)),
          calls := calls s @ [QueryUnverified ''/cosmos.staking.v1beta1.Query/Validators''
                   (encode M (QueryValidatorsRequest status (Some (PAGE_REQUEST M))))]\<rparr>)"
    by (simp_all add: getAccountBalances_def getClobPair_def getPrice_def getAllValidators_def
        await_def sendQuery_def attempt_def resolve_def settle_def
        split: prod.split sum.split)
  from general named typeOf_requestOf [of M q] path_request [of q q'] path_response [of q q']
  show ?thesis
    by (simp only: simp_thms)
qed

text \<open>
  C6. A call of a query method makes exactly one call on the transport, on the
  method's path with the encoded request, and nothing else: the state after it is the
  state before with the world as the transport left it and that one call appended to
  the log. If the transport call throws, the promise is rejected with the very thing
  thrown. The two block methods, which ask the Tendermint client instead, do the same
  with their one \<open>getBlock\<close> call.
\<close>

theorem transport_called_once_failure_unchanged:
  "snd (invokeQuery M q s) =
     s\<lparr>world := snd (queryUnverified (stargateQueryClient (this s)) (wirePath q)
                 (encode M (requestOf M q)) (world s)),
       calls := calls s @ [QueryUnverified (wirePath q) (encode M (requestOf M q))]\<rparr>
   \<and> (\<forall>x. fst (queryUnverified (stargateQueryClient (this s)) (wirePath q)
                 (encode M (requestOf M q)) (world s)) = Inl x
          \<longrightarrow> fst (invokeQuery M q s) = Inl (Thrown x))
   \<and> snd (latestBlock s) =
     s\<lparr>world := snd (getBlock (tendermintClient (this s)) (world s)),
       calls := calls s @ [GetBlock]\<rparr>
   \<and> snd (latestBlockHeight s) = snd (latestBlock s)
   \<and> (\<forall>x. fst (getBlock (tendermintClient (this s)) (world s)) = Inl x
          \<longrightarrow> fst (latestBlock s) = Inl (Thrown x) \<and> fst (latestBlockHeight s) = Inl (Thrown x))"
  by (simp add: invokeQuery_pipeline pipeline_state pipeline_result latestBlock_state
      latestBlock_result latestBlockHeight_def await_result await_state resolve_state settle_def
      split: sum.split)

text \<open>
  On the fixtures: the node answers the price query with \<open>not found\<close>, and
  \<open>getPrice\<close> is rejected with it after one call; the Tendermint client refuses the
  connection, and \<open>latestBlockHeight\<close> is rejected with that after one call.
\<close>

theorem transport_called_once_failure_unchanged_witness:
  "invokeQuery wireModules (GetPrice 7)
     (fixtureState [(''/dydxprotocol.prices.Query/MarketPrice'', Inl ''not found'')]) =
   (Inl (Thrown ''not found''),
    \<lparr>this = Get_constructor (mockTendermintClient fixtureBlock)
       (mockQueryClient [(''/dydxprotocol.prices.Query/MarketPrice'', Inl ''not found'')]),
     world = 1,
     calls = [QueryUnverified ''/dydxprotocol.prices.Query/MarketPrice'' [8, 7]]\<rparr>)
   \<and> fst (latestBlockHeight offlineState) = Inl (Thrown ''connection refused'')
   \<and> calls (snd (latestBlockHeight offlineState)) = [GetBlock]"
proof -
  let ?s = "fixtureState [(''/dydxprotocol.prices.Query/MarketPrice'', Inl ''not found'')]"
  have e: "encode wireModules (QueryMarketPriceRequest 7) = [8, 7]"
    by (simp add: wireModules_def wire_encode_def uint32Field_def writeFields_def varint_numeral)
  have t: "queryUnverified (stargateQueryClient (this ?s)) ''/dydxprotocol.prices.Query/MarketPrice''
       [8, 7] (world ?s) = (Inl ''not found'', Suc 0)"
    by (simp add: fixture_transport)
  have g: "getBlock (tendermintClient (this offlineState)) (world offlineState)
      = (Inl ''connection refused'', Suc 0)"
    by (simp add: offlineState_def Get_constructor_def failingTendermintClient_def)
  from transport_called_once_failure_unchanged [of wireModules "GetPrice 7" ?s]
  have "snd (invokeQuery wireModules (GetPrice 7) ?s) =
      ?s\<lparr>world := Suc 0,
        calls := calls ?s @ [QueryUnverified ''/dydxprotocol.prices.Query/MarketPrice'' [8, 7]]\<rparr>"
    and "fst (invokeQuery wireModules (GetPrice 7) ?s) = Inl (Thrown ''not found'')"
    by (simp_all add: e t)
  then have query: "invokeQuery wireModules (GetPrice 7) ?s =
     (Inl (Thrown ''not found''),
      \<lparr>this = Get_constructor (mockTendermintClient fixtureBlock)
         (mockQueryClient [(''/dydxprotocol.prices.Query/MarketPrice'', Inl ''not found'')]),
       world = 1,
       calls = [QueryUnverified ''/dydxprotocol.prices.Query/MarketPrice'' [8, 7]]\<rparr>)"
    by (simp add: prod_eq_iff fixtureState_def)
  from transport_called_once_failure_unchanged [of wireModules "GetPrice 7" offlineState]
  have "fst (latestBlockHeight offlineState) = Inl (Thrown ''connection refused'')"
    and "calls (snd (latestBlockHeight offlineState)) = calls offlineState @ [GetBlock]"
    by (simp_all add: g)
  then have "fst (latestBlockHeight offlineState) = Inl (Thrown ''connection refused'')"
    and "calls (snd (latestBlockHeight offlineState)) = [GetBlock]"
    by (simp_all add: offlineState_def)
  with query show ?thesis by simp
qed

text \<open>
  C7, as the code has it. With the reference codec as encoder, whenever the identifier
  among the arguments (if the method takes one) is an integer from 0 to
  \<open>2 ^ 32 - 1\<close>, the payload a query method sends, decoded as the request type bound
  to the method's path, is the request the method constructed from its arguments, field
  for field.
\<close>

theorem request_roundtrip:
  assumes "identifierInRange (requestOf M q)"
  shows "calls (snd (invokeQuery (M\<lparr>encode := wire_encode\<rparr>) q s)) =
           calls s @ [QueryUnverified (wirePath q) (wire_encode (requestOf M q))]
       \<and> wire_decode (requestTypeOf q) (wire_encode (requestOf M q)) = Some (requestOf M q)"
  using wire_roundtrip [OF assms]
  by (simp add: invokeQuery_pipeline pipeline_state requestOf_encode typeOf_requestOf)

text \<open>On the fixture: subaccount number 3 of an owner.\<close>

theorem request_roundtrip_witness:
  "identifierInRange (requestOf wireModules (GetSubaccount ''dydx1abc'' 3))
   \<and> calls (snd (invokeQuery (wireModules\<lparr>encode := wire_encode\<rparr>) (GetSubaccount ''dydx1abc'' 3)
        (fixtureState []))) =
      [QueryUnverified ''/dydxprotocol.subaccounts.Query/Subaccount''
        (wire_encode (QueryGetSubaccountRequest ''dydx1abc'' 3))]
   \<and> wire_decode SubaccountsModule_QueryGetSubaccountRequest
        (wire_encode (QueryGetSubaccountRequest ''dydx1abc'' 3)) =
      Some (QueryGetSubaccountRequest ''dydx1abc'' 3)"
proof -
  have r: "identifierInRange (requestOf wireModules (GetSubaccount ''dydx1abc'' 3))"
    by (simp add: uint32_def)
  have "calls (fixtureState []) = []"
    by (simp add: fixtureState_def)
  with r request_roundtrip [OF r, of "fixtureState []"] show ?thesis
    by simp
qed

text \<open>
  C7 as stated fails: the identifier is a number, and a \<open>uint32\<close> field does not carry
  every number. \<open>getClobPair\<close> called with -1 sends the varint of 4294967295, which
  decodes to the request with id 4294967295; called with \<open>2 ^ 32\<close> it sends the
  field with value 0, which decodes to the request with id 0.
\<close>

theorem request_roundtrip_counterexample:
  "calls (snd (getClobPair wireModules (- 1) (fixtureState []))) =
     [QueryUnverified ''/dydxprotocol.clob.Query/ClobPair'' [8, 255, 255, 255, 255, 15]]
   \<and> wire_decode ClobModule_QueryGetClobPairRequest [8, 255, 255, 255, 255, 15] =
     Some (QueryGetClobPairRequest 4294967295)
   \<and> calls (snd (getClobPair wireModules 4294967296 (fixtureState []))) =
     [QueryUnverified ''/dydxprotocol.clob.Query/ClobPair'' [8, 0]]
   \<and> wire_decode ClobModule_QueryGetClobPairRequest [8, 0] = Some (QueryGetClobPairRequest 0)"
proof -
  have negative: "wire_encode (QueryGetClobPairRequest (- 1)) = [8, 255, 255, 255, 255, 15]"
    by (simp add: wire_encode_def uint32Field_def writeFields_def varint_numeral)
  have wrapped: "wire_encode (QueryGetClobPairRequest 4294967296) = [8, 0]"
    by (simp add: wire_encode_def uint32Field_def writeFields_def varint_numeral)
  have "wire_decode ClobModule_QueryGetClobPairRequest (wire_encode (QueryGetClobPairRequest (- 1)))
      = Some (QueryGetClobPairRequest 4294967295)"
    using wire_decode_encode [of "QueryGetClobPairRequest (- 1)"]
    by (simp add: uint32Field_def readUint32_def)
  moreover have
    "wire_decode ClobModule_QueryGetClobPairRequest (wire_encode (QueryGetClobPairRequest 4294967296))
      = Some (QueryGetClobPairRequest 0)"
    using wire_decode_encode [of "QueryGetClobPairRequest 4294967296"]
    by (simp add: uint32Field_def readUint32_def)
  moreover have "encode wireModules = wire_encode"
    by (simp add: wireModules_def)
  moreover have "calls (fixtureState []) = []"
    by (simp add: fixtureState_def)
  ultimately show ?thesis
    by (simp add: negative wrapped getClobPair_def method_state)
qed

text \<open>
  C8. After a call of any method the object is the one before the call, both client
  fields included; and what the call resolves to or is rejected with is determined by
  its arguments and by what the outside answered: in two states where the answer is the
  same, whatever else differs (the calls made before, the world), the outcome is the
  same.
\<close>

theorem gateway_keeps_no_state:
  "this (snd (invoke M i s)) = this s
   \<and> tendermintClient (this (snd (invoke M i s))) = tendermintClient (this s)
   \<and> stargateQueryClient (this (snd (invoke M i s))) = stargateQueryClient (this s)
   \<and> (transportReply M i s = transportReply M i s' \<longrightarrow> fst (invoke M i s) = fst (invoke M i s'))"
  using invoke_result [of M i s s'] by (simp add: invoke_this)

text \<open>On the fixture: the same balance query, asked again in the state the first left.\<close>

theorem gateway_keeps_no_state_witness:
  "fst (invoke wireModules (Query (GetAccountBalance ''dydx1abc'' ''adv4tnt''))
         (snd (invoke wireModules (Query (GetAccountBalance ''dydx1abc'' ''adv4tnt''))
           (fixtureState [(''/cosmos.bank.v1beta1.Query/Balance'', Inr balanceReply)]))))
   = fst (invoke wireModules (Query (GetAccountBalance ''dydx1abc'' ''adv4tnt''))
           (fixtureState [(''/cosmos.bank.v1beta1.Query/Balance'', Inr balanceReply)]))
   \<and> fst (invoke wireModules (Query (GetAccountBalance ''dydx1abc'' ''adv4tnt''))
           (fixtureState [(''/cosmos.bank.v1beta1.Query/Balance'', Inr balanceReply)]))
     = Inr (BalanceReply (Some fixtureCoin))"
proof -
  let ?q = "GetAccountBalance ''dydx1abc'' ''adv4tnt''"
  let ?s = "fixtureState [(''/cosmos.bank.v1beta1.Query/Balance'', Inr balanceReply)]"
  let ?s' = "snd (invokeQuery wireModules ?q ?s)"
  have s': "?s' = ?s\<lparr>world := Suc 0,
      calls := [QueryUnverified ''/cosmos.bank.v1beta1.Query/Balance''
        (encode wireModules (QueryBalanceRequest ''dydx1abc'' ''adv4tnt''))]\<rparr>"
    by (simp add: invokeQuery_pipeline pipeline_state fixture_transport)
      (simp add: fixtureState_def)
  have "transportReply wireModules (Query ?q) ?s' = transportReply wireModules (Query ?q) ?s"
    by (simp add: s') (simp add: fixtureState_def Get_constructor_def mockQueryClient_def)
  with gateway_keeps_no_state [of wireModules "Query ?q" ?s' ?s]
  have "fst (invokeQuery wireModules ?q ?s') = fst (invokeQuery wireModules ?q ?s)"
    by simp
  moreover have "fst (invokeQuery wireModules ?q ?s) = Inr (BalanceReply (Some fixtureCoin))"
    by (simp add: invokeQuery_pipeline pipeline_result fixture_transport decode_balanceReply
        resolve_result)
  ultimately show ?thesis by simp
qed

text \<open>
  C9. \<open>getUserStats\<close>, when the transport returns bytes and they decode to a
  \<open>QueryUserStatsResponse\<close>: with the \<open>stats\<close> field unset the promise resolves to
  the absent value, no error; with it set, to exactly that record.
\<close>

theorem getUserStats_absent_or_exact:
  assumes "queryUnverified (stargateQueryClient (this s)) ''/dydxprotocol.stats.Query/UserStats''
             (encode M (QueryUserStatsRequest address)) (world s) = (Inr data, w')"
    and "decode_QueryUserStatsResponse M data = Inr response"
  shows "(stats response = None \<longrightarrow> fst (getUserStats M address s) = Inr None)
       \<and> (\<forall>u. stats response = Some u \<longrightarrow> fst (getUserStats M address s) = Inr (Some u))"
  using assms
  by (simp add: getUserStats_def await_def sendQuery_def attempt_def settle_def resolve_def)

theorem getUserStats_absent_or_exact_witness:
  "fst (getUserStats wireModules ''dydx1abc''
         (fixtureState [(''/dydxprotocol.stats.Query/UserStats'', Inr [])])) = Inr None
   \<and> fst (getUserStats wireModules ''dydx1abc''
         (fixtureState [(''/dydxprotocol.stats.Query/UserStats'', Inr statsReply)]))
       = Inr (Some \<lparr>takerNotional = 7, makerNotional = 300\<rparr>)"
proof -
  let ?absent = "fixtureState [(''/dydxprotocol.stats.Query/UserStats'', Inr [])]"
  let ?present = "fixtureState [(''/dydxprotocol.stats.Query/UserStats'', Inr statsReply)]"
  have a: "queryUnverified (stargateQueryClient (this ?absent)) ''/dydxprotocol.stats.Query/UserStats''
      (encode wireModules (QueryUserStatsRequest ''dydx1abc'')) (world ?absent) = (Inr [], Suc 0)"
    by (simp add: fixture_transport)
  have p: "queryUnverified (stargateQueryClient (this ?present)) ''/dydxprotocol.stats.Query/UserStats''
      (encode wireModules (QueryUserStatsRequest ''dydx1abc'')) (world ?present)
      = (Inr statsReply, Suc 0)"
    by (simp add: fixture_transport)
  from getUserStats_absent_or_exact [OF a decode_empty_stats]
    getUserStats_absent_or_exact [OF p decode_statsReply]
  show ?thesis
    by (simp add: fixtureStats_def)
qed

text \<open>
  C10. \<open>getAccountBalance\<close> hands on the decoded balance as it is: whenever the
  response carries a coin, the promise resolves to that coin, whatever its denomination
  and whatever denomination was asked for, and the call does nothing but the one
  transport call.
\<close>

theorem getAccountBalance_verbatim:
  assumes "queryUnverified (stargateQueryClient (this s)) ''/cosmos.bank.v1beta1.Query/Balance''
             (encode M (QueryBalanceRequest address denom')) (world s) = (Inr data, w')"
    and "decode_QueryBalanceResponse M data = Inr response"
    and "balance response = Some coin"
  shows "getAccountBalance M address denom' s =
           (Inr (Some coin),
            s\<lparr>world := w',
              calls := calls s @ [QueryUnverified ''/cosmos.bank.v1beta1.Query/Balance''
                (encode M (QueryBalanceRequest address denom'))]\<rparr>)"
  using assms
  by (simp add: getAccountBalance_def await_def sendQuery_def attempt_def settle_def resolve_def)

text \<open>On the fixture: one denomination asked for, a coin of another returned.\<close>

theorem getAccountBalance_verbatim_witness:
  "fst (getAccountBalance wireModules ''dydx1abc'' ''ibc/usdc''
         (fixtureState [(''/cosmos.bank.v1beta1.Query/Balance'', Inr balanceReply)]))
       = Inr (Some fixtureCoin)
   \<and> denom fixtureCoin \<noteq> ''ibc/usdc''"
proof -
  let ?s = "fixtureState [(''/cosmos.bank.v1beta1.Query/Balance'', Inr balanceReply)]"
  have p: "queryUnverified (stargateQueryClient (this ?s)) ''/cosmos.bank.v1beta1.Query/Balance''
      (encode wireModules (QueryBalanceRequest ''dydx1abc'' ''ibc/usdc'')) (world ?s)
      = (Inr balanceReply, Suc 0)"
    by (simp add: fixture_transport)
  have b: "balance \<lparr>balance = Some fixtureCoin\<rparr> = Some fixtureCoin"
    by simp
  from getAccountBalance_verbatim [OF p decode_balanceReply b]
  show ?thesis
    by (simp add: fixtureCoin_def)
qed

end
